theory Spec2Isabelle
  imports Complex_Main "HOL-Library.Multiset"
begin

section \<open>Python values and library functions\<close>

text \<open>
  Exceptions of the Python code are values: every function that can raise returns
  \<open>error + 'a\<close>, with \<open>Inl\<close> for the exception.
\<close>

datatype error = KeyError | IndexError | ValueError | TypeError

definition bindE :: "error + 'a \<Rightarrow> ('a \<Rightarrow> error + 'b) \<Rightarrow> error + 'b" where
  "bindE m f = (case m of Inl e \<Rightarrow> Inl e | Inr x \<Rightarrow> f x)"

text \<open>A list comprehension or \<^verbatim>\<open>for\<close> loop whose body can raise: the first
  exception, in iteration order, ends it.\<close>

fun mapE :: "('a \<Rightarrow> error + 'b) \<Rightarrow> 'a list \<Rightarrow> error + 'b list" where
  "mapE f [] = Inr []"
| "mapE f (x # xs) = bindE (f x) (\<lambda>y. bindE (mapE f xs) (\<lambda>ys. Inr (y # ys)))"

text \<open>\<^verbatim>\<open>xs[i]\<close> for a literal index \<open>i \<ge> 0\<close>.\<close>

definition py_index :: "'a list \<Rightarrow> nat \<Rightarrow> error + 'a" where
  "py_index xs i = (if i < length xs then Inr (xs ! i) else Inl IndexError)"

text \<open>
  A cell of a table or a Python scalar: a float that is a number, the float NaN (which
  is also how pandas stores a missing value), or a string. Floats are idealised as
  reals; infinities are not modelled.
\<close>

datatype val = Num real | NaN | Str string

text \<open>\<^verbatim>\<open>pandas.notna\<close> on a cell.\<close>

definition notna :: "val \<Rightarrow> bool" where
  "notna v = (v \<noteq> NaN)"

text \<open>\<^verbatim>\<open>v / d\<close> for a non-zero numeric literal \<open>d\<close>, and unary minus.\<close>

fun true_div :: "val \<Rightarrow> real \<Rightarrow> error + val" where
  "true_div (Num x) d = Inr (Num (x / d))"
| "true_div NaN d = Inr NaN"
| "true_div (Str s) d = Inl TypeError"

fun neg :: "val \<Rightarrow> error + val" where
  "neg (Num x) = Inr (Num (- x))"
| "neg NaN = Inr NaN"
| "neg (Str s) = Inl TypeError"

subsection \<open>Strings\<close>

text \<open>Strings are ASCII. \<open>starts_with p s\<close> is \<^verbatim>\<open>s.startswith(p)\<close> and
  \<open>contains p s\<close> is \<^verbatim>\<open>p in s\<close>.\<close>

fun starts_with :: "string \<Rightarrow> string \<Rightarrow> bool" where
  "starts_with [] s = True"
| "starts_with (p # ps) [] = False"
| "starts_with (p # ps) (c # cs) = (p = c \<and> starts_with ps cs)"

fun contains :: "string \<Rightarrow> string \<Rightarrow> bool" where
  "contains p [] = (p = [])"
| "contains p (c # cs) = (starts_with p (c # cs) \<or> contains p cs)"

text \<open>
  \<^verbatim>\<open>s.split(sep)\<close> for a non-empty separator (every separator in the source is a
  non-empty literal; Python raises on an empty one): the pieces between the
  non-overlapping occurrences of \<open>sep\<close>, found from the left.
\<close>

function py_split :: "string \<Rightarrow> string \<Rightarrow> string list" where
  "py_split sep s =
     (if s = [] then [[]]
      else if sep \<noteq> [] \<and> starts_with sep s then [] # py_split sep (drop (length sep) s)
      else (case py_split sep (tl s) of
              [] \<Rightarrow> [[hd s]]
            | w # ws \<Rightarrow> (hd s # w) # ws))"
  by pat_completeness auto
termination
  by (relation "measure (\<lambda>(sep, s). length s)") auto

declare py_split.simps [simp del]

text \<open>
  \<^verbatim>\<open>int(s)\<close> on a string: surrounding white space (space, tab, line feed,
  vertical tab, form feed, carriage return) is stripped, one sign is allowed, and the
  rest must be decimal digits, with single underscores allowed between digits.
\<close>

definition digit_val :: "char \<Rightarrow> nat option" where
  "digit_val = map_of
     [(CHR ''0'', 0), (CHR ''1'', 1), (CHR ''2'', 2), (CHR ''3'', 3), (CHR ''4'', 4),
      (CHR ''5'', 5), (CHR ''6'', 6), (CHR ''7'', 7), (CHR ''8'', 8), (CHR ''9'', 9)]"

definition is_space :: "char \<Rightarrow> bool" where
  "is_space c = (c \<in> set [CHR '' '', CHR 0x09, CHR 0x0A, CHR 0x0B, CHR 0x0C, CHR 0x0D])"

definition py_strip :: "string \<Rightarrow> string" where
  "py_strip s = rev (dropWhile is_space (rev (dropWhile is_space s)))"

fun parse_digits :: "nat \<Rightarrow> string \<Rightarrow> error + nat" where
  "parse_digits acc [] = Inr acc"
| "parse_digits acc [c] =
     (case digit_val c of Some d \<Rightarrow> Inr (10 * acc + d) | None \<Rightarrow> Inl ValueError)"
| "parse_digits acc (c # c' # cs) =
     (case digit_val c of
        Some d \<Rightarrow> parse_digits (10 * acc + d) (c' # cs)
      | None \<Rightarrow>
          (if c = CHR ''_'' then
             (case digit_val c' of
                Some d \<Rightarrow> parse_digits (10 * acc + d) cs
              | None \<Rightarrow> Inl ValueError)
           else Inl ValueError))"

definition parse_unsigned :: "string \<Rightarrow> error + nat" where
  "parse_unsigned s =
     (case s of
        [] \<Rightarrow> Inl ValueError
      | c # cs \<Rightarrow> (case digit_val c of Some d \<Rightarrow> parse_digits d cs | None \<Rightarrow> Inl ValueError))"

definition py_int :: "string \<Rightarrow> error + int" where
  "py_int s =
     (case py_strip s of
        [] \<Rightarrow> Inl ValueError
      | c # cs \<Rightarrow>
          if c = CHR ''-'' then bindE (parse_unsigned cs) (\<lambda>n. Inr (- int n))
          else if c = CHR ''+'' then bindE (parse_unsigned cs) (\<lambda>n. Inr (int n))
          else bindE (parse_unsigned (c # cs)) (\<lambda>n. Inr (int n)))"

text \<open>\<^verbatim>\<open>str(i)\<close> on an integer.\<close>

fun str_nat :: "nat \<Rightarrow> string" where
  "str_nat n =
     (if n < 10 then [''0123456789'' ! n]
      else str_nat (n div 10) @ [''0123456789'' ! (n mod 10)])"

declare str_nat.simps [simp del]

definition py_str :: "int \<Rightarrow> string" where
  "py_str i = (if i < 0 then CHR ''-'' # str_nat (nat (- i)) else str_nat (nat i))"

text \<open>\<^verbatim>\<open>int(x)\<close> on a finite float: truncation toward zero.\<close>

definition int_of_float :: "real \<Rightarrow> int" where
  "int_of_float x = (if x < 0 then \<lceil>x\<rceil> else \<lfloor>x\<rfloor>)"

text \<open>
  The format specification \<^verbatim>\<open>.1f\<close>: one decimal, the exact value rounded to the
  nearest tenth with ties to even, a minus sign for every negative value, and
  \<^verbatim>\<open>nan\<close> for NaN (\<open>None\<close>).
\<close>

definition round_half_even :: "real \<Rightarrow> int" where
  "round_half_even x =
     (let f = \<lfloor>x\<rfloor>; d = x - of_int f
      in if d < 1 / 2 then f else if 1 / 2 < d then f + 1
         else if even f then f else f + 1)"

definition format_1f_float :: "real option \<Rightarrow> string" where
  "format_1f_float v =
     (case v of
        None \<Rightarrow> ''nan''
      | Some x \<Rightarrow>
          (let t = nat (round_half_even (\<bar>x\<bar> * 10))
           in (if x < 0 then ''-'' else []) @ str_nat (t div 10) @ ''.'' @ str_nat (t mod 10)))"

fun format_1f :: "val \<Rightarrow> error + string" where
  "format_1f (Num x) = Inr (format_1f_float (Some x))"
| "format_1f NaN = Inr (format_1f_float None)"
| "format_1f (Str s) = Inl ValueError"

text \<open>\<^verbatim>\<open>sorted(xs, key=key)\<close>: the keys are computed first, then the sort is stable.\<close>

definition py_sorted :: "('a \<Rightarrow> error + int) \<Rightarrow> 'a list \<Rightarrow> error + 'a list" where
  "py_sorted key xs = bindE (mapE key xs) (\<lambda>ks. Inr (map snd (sort_key fst (zip ks xs))))"

text \<open>The key of an element on which \<open>key\<close> does not raise.\<close>

definition key_of :: "('a \<Rightarrow> error + int) \<Rightarrow> 'a \<Rightarrow> int" where
  "key_of key x = (case key x of Inr k \<Rightarrow> k | Inl e \<Rightarrow> 0)"


section \<open>Tables\<close>

text \<open>
  A row of an observation table of the catalogue: the key columns \<^verbatim>\<open>entities\<close>
  and \<^verbatim>\<open>years\<close>, and a value for each metric column. A table is the list of its
  metric column names, in order, and the list of its rows; a metric column that a row
  has no entry for is NaN there.
\<close>

record obs_row =
  entities :: string
  years :: int
  metrics :: "string \<rightharpoonup> val"

record frame =
  columns :: "string list"
  rows :: "obs_row list"

definition cell :: "obs_row \<Rightarrow> string \<Rightarrow> val" where
  "cell r c = (case metrics r c of Some v \<Rightarrow> v | None \<Rightarrow> NaN)"

text \<open>\<^verbatim>\<open>df[c]\<close> for a metric column name: the column as a series.\<close>

definition getitem_col :: "frame \<Rightarrow> string \<Rightarrow> error + val list" where
  "getitem_col df c =
     (if c \<in> set (columns df) then Inr (map (\<lambda>r. cell r c) (rows df)) else Inl KeyError)"

text \<open>The boolean series \<^verbatim>\<open>df['entities'] == e\<close>, \<^verbatim>\<open>df['years'] == y\<close>,
  \<^verbatim>\<open>df['entities'].isin(xs)\<close> and \<^verbatim>\<open>m1 & m2\<close>.\<close>

definition eq_entities :: "frame \<Rightarrow> string \<Rightarrow> bool list" where
  "eq_entities df e = map (\<lambda>r. entities r = e) (rows df)"

definition eq_years :: "frame \<Rightarrow> int \<Rightarrow> bool list" where
  "eq_years df y = map (\<lambda>r. years r = y) (rows df)"

definition isin_entities :: "frame \<Rightarrow> string list \<Rightarrow> bool list" where
  "isin_entities df xs = map (\<lambda>r. entities r \<in> set xs) (rows df)"

definition mask_and :: "bool list \<Rightarrow> bool list \<Rightarrow> bool list" where
  "mask_and m1 m2 = map (\<lambda>(a, b). a \<and> b) (zip m1 m2)"

text \<open>\<^verbatim>\<open>df[mask]\<close> for a boolean series: the rows where the mask is true.\<close>

definition getitem_mask :: "frame \<Rightarrow> bool list \<Rightarrow> frame" where
  "getitem_mask df m = df\<lparr>rows := map fst (filter snd (zip (rows df) m))\<rparr>"

text \<open>\<^verbatim>\<open>numpy.where(c, a, b)\<close> on three series of one length.\<close>

definition np_where :: "bool list \<Rightarrow> val list \<Rightarrow> val list \<Rightarrow> val list" where
  "np_where c a b = map (\<lambda>(c, a, b). if c then a else b) (zip c (zip a b))"

text \<open>\<^verbatim>\<open>df[c] = vs\<close>: the column is replaced, or appended when new; the length of
  the values must be the number of rows.\<close>

definition setitem_col :: "frame \<Rightarrow> string \<Rightarrow> val list \<Rightarrow> error + frame" where
  "setitem_col df c vs =
     (if length vs \<noteq> length (rows df) then Inl ValueError
      else Inr \<lparr>columns = (if c \<in> set (columns df) then columns df else columns df @ [c]),
                rows = map (\<lambda>(r, v). r\<lparr>metrics := (metrics r)(c \<mapsto> v)\<rparr>) (zip (rows df) vs)\<rparr>)"

text \<open>\<^verbatim>\<open>df.empty\<close> (the key columns are always there, so only the rows count) and
  \<^verbatim>\<open>df[c].iloc[0]\<close>.\<close>

definition df_empty :: "frame \<Rightarrow> bool" where
  "df_empty df = (rows df = [])"

definition iloc0 :: "frame \<Rightarrow> string \<Rightarrow> error + val" where
  "iloc0 df c = bindE (getitem_col df c) (\<lambda>series. py_index series 0)"


section \<open>Data loaded by age\_app.py and age\_app\_shiny.py\<close>

text \<open>\<^verbatim>\<open>extract_age_groups(df, sex)\<close> (lines 26-29).\<close>

definition extract_age_groups :: "frame \<Rightarrow> string \<Rightarrow> error + string list" where
  "extract_age_groups df sex =
     (let age_columns = filter (contains (''__sex_'' @ sex @ ''__age_'')) (columns df)
      in mapE (\<lambda>col. bindE (py_index (py_split ''__age_'' col) 1)
                       (\<lambda>rest. py_index (py_split ''__variant'' rest) 0)) age_columns)"

text \<open>The module-level values that the reactive code reads.\<close>

record dataset =
  male_popl_by_age_df :: frame
  female_popl_by_age_df :: frame
  median_df :: frame
  male_age_groups :: "string list"
  female_age_groups :: "string list"
  available_years :: "int list"

text \<open>
  Lines 21-37 on the three tables of the catalogue. \<^verbatim>\<open>available_years\<close> is
  \<^verbatim>\<open>sorted(df['years'].unique())\<close>; the year slider takes its \<^verbatim>\<open>min\<close> and
  \<^verbatim>\<open>max\<close>, which raise on an empty list.
\<close>

definition load_dataset :: "frame \<Rightarrow> frame \<Rightarrow> frame \<Rightarrow> error + dataset" where
  "load_dataset male female median =
     bindE (extract_age_groups male ''male'') (\<lambda>mg.
     bindE (extract_age_groups female ''female'') (\<lambda>fg.
       (let ys = sort (remdups (map years (rows male)))
        in if ys = [] then Inl ValueError
           else Inr \<lparr>male_popl_by_age_df = male, female_popl_by_age_df = female,
                     median_df = median, male_age_groups = mg, female_age_groups = fg,
                     available_years = ys\<rparr>)))"

definition median_regions :: "string list" where
  "median_regions = [''Asia (UN)'', ''Europe (UN)'', ''United States'', ''Africa (UN)'']"

definition estimates_column :: string where
  "estimates_column = ''median_age__sex_all__age_all__variant_estimates''"

definition medium_column :: string where
  "medium_column = ''median_age__sex_all__age_all__variant_medium''"

definition region_color :: "string \<Rightarrow> string option" where
  "region_color = map_of
     [(''Africa (UN)'', ''#1f77b4''), (''Asia (UN)'', ''#ff7f0e''),
      (''Europe (UN)'', ''#2ca02c''), (''United States'', ''#d62728'')]"


section \<open>Animation loops of age\_app.py\<close>

text \<open>
  The per-session state that the reactive effects of \<^verbatim>\<open>age_app.py\<close> read and write:
  the three sidebar inputs, the two \<^verbatim>\<open>reactive.Value\<close> flags and the labels of
  the two play buttons. \<^verbatim>\<open>ui.update_slider(id, value=v)\<close> and
  \<^verbatim>\<open>ui.update_action_button(id, label=l)\<close> are modelled as assignments to the
  corresponding field.
\<close>

record session =
  entity :: string
  year :: int
  median_year :: int
  animating_age_distribution :: bool
  animating_median_age :: bool
  play_age_distribution_label :: string
  play_median_age_label :: string

text \<open>The sidebar defaults of \<^verbatim>\<open>age_app.py\<close> and both flags \<^verbatim>\<open>False\<close>.\<close>

definition initial_session :: session where
  "initial_session =
     \<lparr>entity = ''World'', year = 1950, median_year = 1950,
      animating_age_distribution = False, animating_median_age = False,
      play_age_distribution_label = ''Play'', play_median_age_label = ''Play''\<rparr>"

text \<open>The handler of \<^verbatim>\<open>input.play_age_distribution\<close> (lines 301-309).\<close>

definition on_play_age_distribution :: "session \<Rightarrow> session" where
  "on_play_age_distribution s =
     (let current_state = animating_age_distribution s;
          s1 = s\<lparr>animating_age_distribution := \<not> current_state\<rparr>
      in if \<not> current_state then s1\<lparr>play_age_distribution_label := ''Pause''\<rparr>
         else s1\<lparr>play_age_distribution_label := ''Play''\<rparr>)"

text \<open>The handler of \<^verbatim>\<open>input.play_median_age\<close> (lines 325-333).\<close>

definition on_play_median_age :: "session \<Rightarrow> session" where
  "on_play_median_age s =
     (let current_state = animating_median_age s;
          s1 = s\<lparr>animating_median_age := \<not> current_state\<rparr>
      in if \<not> current_state then s1\<lparr>play_median_age_label := ''Pause''\<rparr>
         else s1\<lparr>play_median_age_label := ''Play''\<rparr>)"

text \<open>
  One run of the effect \<^verbatim>\<open>_animate_age_distribution\<close> (lines 311-323). The first
  argument is \<^verbatim>\<open>max(available_years)\<close>, which the effect recomputes at every run
  from a list fixed at load time. The second component of the result is the delay, in
  seconds, handed to \<^verbatim>\<open>reactive.invalidate_later\<close>, or \<open>None\<close> when the run
  schedules nothing.
\<close>

definition animate_age_distribution :: "int \<Rightarrow> session \<Rightarrow> session \<times> rat option" where
  "animate_age_distribution max_year s =
     (if animating_age_distribution s then
        (let current_year = year s in
         if current_year < max_year then
           (let next_year = current_year + 1
            in (s\<lparr>year := next_year\<rparr>, Some (1 / 20)))
         else
           (s\<lparr>animating_age_distribution := False,
              play_age_distribution_label := ''Play''\<rparr>, None))
      else (s, None))"

text \<open>One run of the effect \<^verbatim>\<open>_animate_median_age\<close> (lines 335-348).\<close>

definition animate_median_age :: "session \<Rightarrow> session \<times> rat option" where
  "animate_median_age s =
     (if animating_median_age s then
        (let current_median_year = median_year s;
             max_median_year = 2100 in
         if current_median_year < max_median_year then
           (let next_median_year = current_median_year + 1
            in (s\<lparr>median_year := next_median_year\<rparr>, Some (1 / 4)))
         else
           (s\<lparr>animating_median_age := False,
              play_median_age_label := ''Play''\<rparr>, None))
      else (s, None))"

text \<open>The session after \<open>n\<close> consecutive runs of each effect.\<close>

definition age_ticks :: "nat \<Rightarrow> int \<Rightarrow> session \<Rightarrow> session" where
  "age_ticks n max_year s = ((\<lambda>t. fst (animate_age_distribution max_year t)) ^^ n) s"

definition median_ticks :: "nat \<Rightarrow> session \<Rightarrow> session" where
  "median_ticks n s = ((\<lambda>t. fst (animate_median_age t)) ^^ n) s"

text \<open>A session that has just been switched to Playing from the defaults.\<close>

definition playing_session :: session where
  "playing_session = on_play_median_age (on_play_age_distribution initial_session)"


section \<open>Reactive calculations and renders of the age dashboards\<close>

text \<open>\<^verbatim>\<open>get_population_data\<close> (age\_app.py lines 260-271, age\_app\_shiny.py lines
  285-296).\<close>

definition get_population_data :: "dataset \<Rightarrow> session \<Rightarrow> frame \<times> frame" where
  "get_population_data ds s =
     (let male_data = getitem_mask (male_popl_by_age_df ds)
            (mask_and (eq_entities (male_popl_by_age_df ds) (entity s))
                      (eq_years (male_popl_by_age_df ds) (year s)));
          female_data = getitem_mask (female_popl_by_age_df ds)
            (mask_and (eq_entities (female_popl_by_age_df ds) (entity s))
                      (eq_years (female_popl_by_age_df ds) (year s)))
      in (male_data, female_data))"

text \<open>
  \<^verbatim>\<open>get_median_data\<close> (age\_app.py lines 273-288, age\_app\_shiny.py lines 298-313).
  At the level of values \<^verbatim>\<open>.copy()\<close> is the identity; the version with an
  explicit store is \<open>get_median_data_st\<close> below.
\<close>

definition get_median_data :: "dataset \<Rightarrow> session \<Rightarrow> error + frame \<times> bool" where
  "get_median_data ds s =
     (let filtered_df = getitem_mask (median_df ds) (isin_entities (median_df ds) median_regions)
      in bindE (getitem_col filtered_df estimates_column) (\<lambda>est_notna.
         bindE (getitem_col filtered_df estimates_column) (\<lambda>est.
         bindE (getitem_col filtered_df medium_column) (\<lambda>med.
         bindE (setitem_col filtered_df ''median_age_combined''
                  (np_where (map notna est_notna) est med)) (\<lambda>filtered_df.
           (let year_data = getitem_mask filtered_df (eq_years filtered_df (median_year s))
            in Inr (year_data, median_year s > 2023)))))))"

text \<open>\<^verbatim>\<open>projection_info\<close> (age\_app.py lines 199-204): the HTML it emits.\<close>

definition projection_info :: "session \<Rightarrow> string" where
  "projection_info s =
     (if median_year s > 2023 then ''<span class='projection-note'>Projektion</span>''
      else ''<span>Historische Daten</span>'')"

text \<open>
  What a render hands to the plotting library. \<open>NoDataPlaceholder\<close> is the figure
  that only carries the text "Keine Daten verfuegbar ...". In a pyramid,
  \<open>tick_labels\<close> is the list given to \<^verbatim>\<open>ax.set_xticklabels\<close> in age\_app.py,
  one label for each tick position of \<^verbatim>\<open>ax.get_xticks()\<close>, and the list given as
  \<^verbatim>\<open>ticktext\<close> in age\_app\_shiny.py, which sets no tick positions
  (\<^verbatim>\<open>tickvals\<close>) to go with it.
\<close>

record pyramid =
  fig_title :: string
  bracket_labels :: "string list"
  male_series :: "val list"
  female_series :: "val list"
  tick_labels :: "string list"

record median_bars =
  bars_title :: string
  bar_entities :: "string list"
  bar_values :: "val list"
  bar_colors :: "string list"
  bar_texts :: "string list"
  bar_opacity :: rat
  bar_ylim :: "real option"

datatype figure = NoDataPlaceholder | Pyramid pyramid | MedianBars median_bars

text \<open>The sort key of line 151 and the display label of lines 157-161.\<close>

definition age_key :: "string \<Rightarrow> error + int" where
  "age_key x =
     (if x \<noteq> ''100plus'' then bindE (py_index (py_split ''_'' x) 0) py_int else Inr 100)"

definition age_label_of :: "string \<Rightarrow> error + string" where
  "age_label_of age_group =
     (if age_group = ''100plus'' then Inr ''100+''
      else (let age_range = py_split ''_'' age_group
            in bindE (py_index age_range 0) (\<lambda>lo.
               bindE (py_index age_range 1) (\<lambda>hi. Inr (lo @ ''-'' @ hi)))))"

definition col_male :: "string \<Rightarrow> string" where
  "col_male age_group = ''population__sex_male__age_'' @ age_group @ ''__variant_estimates''"

definition col_female :: "string \<Rightarrow> string" where
  "col_female age_group = ''population__sex_female__age_'' @ age_group @ ''__variant_estimates''"

definition plot_title :: "session \<Rightarrow> string" where
  "plot_title s = ''Altersverteilung - '' @ entity s @ '' ('' @ py_str (year s) @ '')''"

text \<open>\<^verbatim>\<open>str(abs(int(x)))\<close> on a tick position.\<close>

definition tick_label :: "real \<Rightarrow> string" where
  "tick_label x = py_str \<bar>int_of_float x\<bar>"

text \<open>The body of the loop of \<^verbatim>\<open>age_distribution_plot\<close> (age\_app.py lines
  153-168): the label, the male bar and the female bar of one age group.\<close>

definition plot_entry :: "frame \<Rightarrow> frame \<Rightarrow> string \<Rightarrow> error + string \<times> val \<times> val" where
  "plot_entry male_data female_data age_group =
     bindE (age_label_of age_group) (\<lambda>age_label.
     bindE (iloc0 male_data (col_male age_group)) (\<lambda>m.
     bindE (true_div m 1000000) (\<lambda>male_pop.
     bindE (iloc0 female_data (col_female age_group)) (\<lambda>f.
     bindE (true_div f 1000000) (\<lambda>female_pop.
     bindE (neg male_pop) (\<lambda>male_bar. Inr (age_label, male_bar, female_pop)))))))"

text \<open>
  \<^verbatim>\<open>age_distribution_plot\<close> of age\_app.py (lines 131-191), after its first line:
  \<open>xticks\<close> is what \<^verbatim>\<open>ax.get_xticks()\<close> returns, the tick positions chosen by the
  plotting library.
\<close>

definition age_distribution_plot_body ::
  "string list \<Rightarrow> real list \<Rightarrow> session \<Rightarrow> frame \<times> frame \<Rightarrow> error + figure" where
  "age_distribution_plot_body age_groups xticks s data =
     (let (male_data, female_data) = data
      in if df_empty male_data \<or> df_empty female_data then Inr NoDataPlaceholder
         else bindE (py_sorted age_key age_groups) (\<lambda>sorted_age_groups.
              bindE (mapE (plot_entry male_data female_data) sorted_age_groups) (\<lambda>entries.
                Inr (Pyramid \<lparr>fig_title = plot_title s,
                              bracket_labels = map fst entries,
                              male_series = map (\<lambda>e. fst (snd e)) entries,
                              female_series = map (\<lambda>e. snd (snd e)) entries,
                              tick_labels = map tick_label xticks\<rparr>))))"

definition age_distribution_plot :: "dataset \<Rightarrow> real list \<Rightarrow> session \<Rightarrow> error + figure" where
  "age_distribution_plot ds xticks s =
     age_distribution_plot_body (male_age_groups ds) xticks s (get_population_data ds s)"

text \<open>The body of the loop of \<^verbatim>\<open>age_distribution_render\<close> (age\_app\_shiny.py
  lines 138-155).\<close>

definition render_entry :: "frame \<Rightarrow> frame \<Rightarrow> string \<Rightarrow> error + string \<times> val \<times> val" where
  "render_entry male_data female_data age_group =
     bindE (age_label_of age_group) (\<lambda>age_label.
     bindE (iloc0 male_data (col_male age_group)) (\<lambda>m.
     bindE (neg m) (\<lambda>minus_m.
     bindE (true_div minus_m 1000000) (\<lambda>male_pop.
     bindE (iloc0 female_data (col_female age_group)) (\<lambda>f.
     bindE (true_div f 1000000) (\<lambda>female_pop. Inr (age_label, male_pop, female_pop)))))))"

text \<open>\<^verbatim>\<open>str(abs(int(x)))\<close> on an element of a float series: NaN has no integer
  value.\<close>

fun tick_text :: "val \<Rightarrow> error + string" where
  "tick_text (Num x) = Inr (tick_label x)"
| "tick_text NaN = Inl ValueError"
| "tick_text (Str t) = bindE (py_int t) (\<lambda>i. Inr (py_str \<bar>i\<bar>))"

text \<open>
  \<^verbatim>\<open>age_distribution_render\<close> of age\_app\_shiny.py (lines 125-212), after its
  first line. It walks \<^verbatim>\<open>male_age_groups\<close> as loaded; a data frame built from an
  empty list of records has no column \<^verbatim>\<open>Age\<close>.
\<close>

definition age_distribution_render_body ::
  "string list \<Rightarrow> session \<Rightarrow> frame \<times> frame \<Rightarrow> error + figure" where
  "age_distribution_render_body age_groups s data =
     (let (male_data, female_data) = data
      in if df_empty male_data \<or> df_empty female_data then Inr NoDataPlaceholder
         else bindE (mapE (render_entry male_data female_data) age_groups) (\<lambda>age_data.
              if age_data = [] then Inl KeyError
              else bindE (mapE tick_text (map (\<lambda>e. fst (snd e)) age_data)) (\<lambda>ticktext.
                Inr (Pyramid \<lparr>fig_title = plot_title s,
                              bracket_labels = map fst age_data,
                              male_series = map (\<lambda>e. fst (snd e)) age_data,
                              female_series = map (\<lambda>e. snd (snd e)) age_data,
                              tick_labels = ticktext\<rparr>))))"

definition age_distribution_render :: "dataset \<Rightarrow> session \<Rightarrow> error + figure" where
  "age_distribution_render ds s =
     age_distribution_render_body (male_age_groups ds) s (get_population_data ds s)"


subsection \<open>The median-age renders\<close>

definition median_title :: "session \<Rightarrow> string" where
  "median_title s = ''Medianes Alter nach Region ('' @ py_str (median_year s) @ '')''"

text \<open>
  \<^verbatim>\<open>Series.max()\<close> of a column: NaN is skipped, the maximum of no number is NaN
  (\<open>None\<close>), and strings do not compare with floats.
\<close>

fun is_str :: "val \<Rightarrow> bool" where
  "is_str (Str t) = True"
| "is_str v = False"

fun numbers :: "val list \<Rightarrow> real list" where
  "numbers [] = []"
| "numbers (Num x # vs) = x # numbers vs"
| "numbers (v # vs) = numbers vs"

definition column_max :: "val list \<Rightarrow> error + real option" where
  "column_max vs =
     (if list_ex is_str vs then Inl TypeError
      else (case numbers vs of [] \<Rightarrow> Inr None | x # xs \<Rightarrow> Inr (Some (fold max xs x))))"

text \<open>
  \<^verbatim>\<open>median_age_plot\<close> of age\_app.py (lines 206-251), after its first line. A bar
  is coloured \<^verbatim>\<open>colors["regions"].get(entity, "#cccccc")\<close> and labelled with its
  height to one decimal, followed by a line \<^verbatim>\<open>(Proj.)\<close> for a projection. The
  upper limit of the y-axis is 1.2 times the largest value (line 230), and
  \<^verbatim>\<open>set_ylim\<close> raises on a NaN limit.
\<close>

definition median_age_plot_body :: "session \<Rightarrow> frame \<times> bool \<Rightarrow> error + figure" where
  "median_age_plot_body s data =
     (let (year_data, is_projection) = data
      in if df_empty year_data then Inr NoDataPlaceholder
         else
           (let bar_colors = map (\<lambda>r. case region_color (entities r) of
                                          Some c \<Rightarrow> c | None \<Rightarrow> ''#cccccc'') (rows year_data)
            in bindE (getitem_col year_data ''median_age_combined'') (\<lambda>heights.
               bindE (column_max heights) (\<lambda>top.
               bindE (case top of None \<Rightarrow> Inl ValueError | Some t \<Rightarrow> Inr (t * (12 / 10))) (\<lambda>ylim.
               bindE (mapE format_1f heights) (\<lambda>labels.
                 Inr (MedianBars
                   \<lparr>bars_title = median_title s,
                    bar_entities = map entities (rows year_data),
                    bar_values = heights,
                    bar_colors = bar_colors,
                    bar_texts = map (\<lambda>t. if is_projection then t @ CHR 0x0A # ''(Proj.)'' else t)
                                  labels,
                    bar_opacity = (if is_projection then 7 / 10 else 1),
                    bar_ylim = Some ylim\<rparr>)))))))"

text \<open>The column \<^verbatim>\<open>custom_text\<close> that \<^verbatim>\<open>median_age_render\<close> of
  age\_app\_shiny.py computes row by row (lines 238-243).\<close>

definition custom_text :: "bool \<Rightarrow> obs_row \<Rightarrow> error + val" where
  "custom_text is_projection row =
     bindE (format_1f (cell row ''median_age_combined'')) (\<lambda>t.
       Inr (Str (if is_projection
                 then t @ ''<br><span style='color:#edeaa8;font-size:12px'>Projected</span>''
                 else t)))"

text \<open>
  The bar chart that the same function builds from \<^verbatim>\<open>year_data\<close> once the
  column is there (lines 246-279). The colours are those of \<^verbatim>\<open>colors["regions"]\<close>;
  an entity without an entry there (none passes the filter on the regions) would get its
  colour from the plotting library, written as the empty string. The upper end of the
  y-axis range is 1.2 times the largest value, NaN (\<open>None\<close>) when there is no number.
\<close>

definition median_age_render_figure :: "session \<Rightarrow> frame \<Rightarrow> bool \<Rightarrow> error + figure" where
  "median_age_render_figure s year_data is_projection =
     bindE (getitem_col year_data ''median_age_combined'') (\<lambda>heights.
     bindE (getitem_col year_data ''custom_text'') (\<lambda>texts.
     bindE (column_max heights) (\<lambda>top.
       Inr (MedianBars
         \<lparr>bars_title = median_title s,
          bar_entities = map entities (rows year_data),
          bar_values = heights,
          bar_colors = map (\<lambda>r. case region_color (entities r) of
                                   Some c \<Rightarrow> c | None \<Rightarrow> []) (rows year_data),
          bar_texts = map (\<lambda>t. case t of Str u \<Rightarrow> u | _ \<Rightarrow> []) texts,
          bar_opacity = (if is_projection then 7 / 10 else 1),
          bar_ylim = map_option (\<lambda>t. t * (12 / 10)) top\<rparr>))))"

text \<open>\<^verbatim>\<open>median_age_plot\<close> of age\_app.py and \<^verbatim>\<open>median_age_render\<close> of
  age\_app\_shiny.py (lines 226-279) at the level of values.\<close>

definition median_age_plot :: "dataset \<Rightarrow> session \<Rightarrow> error + figure" where
  "median_age_plot ds s = bindE (get_median_data ds s) (median_age_plot_body s)"

definition median_age_render :: "dataset \<Rightarrow> session \<Rightarrow> error + figure" where
  "median_age_render ds s =
     bindE (get_median_data ds s) (\<lambda>(year_data, is_projection).
       if df_empty year_data then Inr NoDataPlaceholder
       else bindE (mapE (custom_text is_projection) (rows year_data)) (\<lambda>texts.
            bindE (setitem_col year_data ''custom_text'' texts) (\<lambda>year_data.
              median_age_render_figure s year_data is_projection)))"


section \<open>A small data set\<close>

text \<open>Three tables in the catalogue's format, small enough to evaluate by hand.\<close>

definition example_row :: "string \<Rightarrow> int \<Rightarrow> (string \<times> val) list \<Rightarrow> obs_row" where
  "example_row e y kvs = \<lparr>entities = e, years = y, metrics = map_of kvs\<rparr>"

definition example_male_df :: frame where
  "example_male_df =
     \<lparr>columns = [col_male ''100plus'', col_male ''0_4'', col_male ''5_9''],
      rows = [example_row ''World'' 1950
                [(col_male ''100plus'', Num 1000000), (col_male ''0_4'', Num 3000000),
                 (col_male ''5_9'', Num 2000000)],
              example_row ''World'' 1951
                [(col_male ''100plus'', Num 1000000), (col_male ''0_4'', Num 5000000),
                 (col_male ''5_9'', Num 4000000)],
              example_row ''Malta'' 1950
                [(col_male ''100plus'', Num 125000), (col_male ''0_4'', Num 500000),
                 (col_male ''5_9'', Num 250000)]]\<rparr>"

definition example_female_df :: frame where
  "example_female_df =
     \<lparr>columns = [col_female ''100plus'', col_female ''0_4'', col_female ''5_9''],
      rows = [example_row ''World'' 1950
                [(col_female ''100plus'', Num 2000000), (col_female ''0_4'', Num 4000000),
                 (col_female ''5_9'', Num 6000000)],
              example_row ''World'' 1951
                [(col_female ''100plus'', Num 2000000), (col_female ''0_4'', Num 7000000),
                 (col_female ''5_9'', Num 8000000)],
              example_row ''Malta'' 1950
                [(col_female ''100plus'', Num 250000), (col_female ''0_4'', Num 500000),
                 (col_female ''5_9'', Num 125000)]]\<rparr>"

definition example_median_df :: frame where
  "example_median_df =
     \<lparr>columns = [estimates_column, medium_column],
      rows = [example_row ''Asia (UN)'' 2023 [(estimates_column, Num 31)],
              example_row ''Europe (UN)'' 2023 [(estimates_column, Num 42), (medium_column, Num 43)],
              example_row ''World'' 2023 [(estimates_column, Num 30)],
              example_row ''Asia (UN)'' 2024 [(medium_column, Num 32)]]\<rparr>"

definition example_dataset :: dataset where
  "example_dataset =
     \<lparr>male_popl_by_age_df = example_male_df, female_popl_by_age_df = example_female_df,
      median_df = example_median_df,
      male_age_groups = [''100plus'', ''0_4'', ''5_9''],
      female_age_groups = [''100plus'', ''0_4'', ''5_9''],
      available_years = [1950, 1951]\<rparr>"


section \<open>The reactive code on an explicit store\<close>

text \<open>
  Data frames are objects: the module-level names refer to three of them, and the
  reactive code creates new ones and assigns columns in place. The store maps an address
  to the data frame that lives there; addresses below \<open>nxt\<close> are in use.
\<close>

type_synonym addr = nat

record heap =
  objs :: "addr \<Rightarrow> frame"
  nxt :: addr

record globals =
  male_ref :: addr
  female_ref :: addr
  median_ref :: addr
  male_groups :: "string list"

definition alloc :: "frame \<Rightarrow> heap \<Rightarrow> addr \<times> heap" where
  "alloc df h = (nxt h, h\<lparr>objs := (objs h)(nxt h := df), nxt := Suc (nxt h)\<rparr>)"

text \<open>\<^verbatim>\<open>df[mask]\<close> and \<^verbatim>\<open>df.copy()\<close> make a new data frame; \<^verbatim>\<open>df[c] = vs\<close>
  changes the data frame it is applied to.\<close>

definition getitem_mask_st :: "addr \<Rightarrow> bool list \<Rightarrow> heap \<Rightarrow> addr \<times> heap" where
  "getitem_mask_st a m h = alloc (getitem_mask (objs h a) m) h"

definition copy_st :: "addr \<Rightarrow> heap \<Rightarrow> addr \<times> heap" where
  "copy_st a h = alloc (objs h a) h"

definition setitem_col_st :: "addr \<Rightarrow> string \<Rightarrow> val list \<Rightarrow> heap \<Rightarrow> (error + unit) \<times> heap" where
  "setitem_col_st a c vs h =
     (case setitem_col (objs h a) c vs of
        Inl e \<Rightarrow> (Inl e, h)
      | Inr df \<Rightarrow> (Inr (), h\<lparr>objs := (objs h)(a := df)\<rparr>))"

definition get_population_data_st :: "globals \<Rightarrow> session \<Rightarrow> heap \<Rightarrow> (addr \<times> addr) \<times> heap" where
  "get_population_data_st g s h =
     (let (male_data, h1) = getitem_mask_st (male_ref g)
            (mask_and (eq_entities (objs h (male_ref g)) (entity s))
                      (eq_years (objs h (male_ref g)) (year s))) h;
          (female_data, h2) = getitem_mask_st (female_ref g)
            (mask_and (eq_entities (objs h1 (female_ref g)) (entity s))
                      (eq_years (objs h1 (female_ref g)) (year s))) h1
      in ((male_data, female_data), h2))"

definition get_median_data_st ::
  "globals \<Rightarrow> session \<Rightarrow> heap \<Rightarrow> (error + addr \<times> bool) \<times> heap" where
  "get_median_data_st g s h =
     (let (selected, h1) = getitem_mask_st (median_ref g)
            (isin_entities (objs h (median_ref g)) median_regions) h;
          (filtered_df, h2) = copy_st selected h1
      in case getitem_col (objs h2 filtered_df) estimates_column of
           Inl e \<Rightarrow> (Inl e, h2)
         | Inr est_notna \<Rightarrow>
        (case getitem_col (objs h2 filtered_df) estimates_column of
           Inl e \<Rightarrow> (Inl e, h2)
         | Inr est \<Rightarrow>
        (case getitem_col (objs h2 filtered_df) medium_column of
           Inl e \<Rightarrow> (Inl e, h2)
         | Inr med \<Rightarrow>
        (case setitem_col_st filtered_df ''median_age_combined''
                (np_where (map notna est_notna) est med) h2 of
           (Inl e, h3) \<Rightarrow> (Inl e, h3)
         | (Inr u, h3) \<Rightarrow>
             (let (year_data, h4) = getitem_mask_st filtered_df
                    (eq_years (objs h3 filtered_df) (median_year s)) h3
              in (Inr (year_data, median_year s > 2023), h4))))))"

definition age_distribution_plot_st ::
  "globals \<Rightarrow> real list \<Rightarrow> session \<Rightarrow> heap \<Rightarrow> (error + figure) \<times> heap" where
  "age_distribution_plot_st g xticks s h =
     (let ((male_data, female_data), h1) = get_population_data_st g s h
      in (age_distribution_plot_body (male_groups g) xticks s
            (objs h1 male_data, objs h1 female_data), h1))"

definition age_distribution_render_st ::
  "globals \<Rightarrow> session \<Rightarrow> heap \<Rightarrow> (error + figure) \<times> heap" where
  "age_distribution_render_st g s h =
     (let ((male_data, female_data), h1) = get_population_data_st g s h
      in (age_distribution_render_body (male_groups g) s
            (objs h1 male_data, objs h1 female_data), h1))"

definition median_age_plot_st :: "globals \<Rightarrow> session \<Rightarrow> heap \<Rightarrow> (error + figure) \<times> heap" where
  "median_age_plot_st g s h =
     (case get_median_data_st g s h of
        (Inl e, h1) \<Rightarrow> (Inl e, h1)
      | (Inr (year_data, is_projection), h1) \<Rightarrow>
          (median_age_plot_body s (objs h1 year_data, is_projection), h1))"

text \<open>\<^verbatim>\<open>median_age_render\<close> of age\_app\_shiny.py (lines 226-279): it assigns the
  column \<^verbatim>\<open>custom_text\<close> to the data frame that \<^verbatim>\<open>get_median_data\<close> returned.\<close>

definition median_age_render_st :: "globals \<Rightarrow> session \<Rightarrow> heap \<Rightarrow> (error + figure) \<times> heap" where
  "median_age_render_st g s h =
     (case get_median_data_st g s h of
        (Inl e, h1) \<Rightarrow> (Inl e, h1)
      | (Inr (year_data, is_projection), h1) \<Rightarrow>
          if df_empty (objs h1 year_data) then (Inr NoDataPlaceholder, h1)
          else
            (case mapE (custom_text is_projection) (rows (objs h1 year_data)) of
               Inl e \<Rightarrow> (Inl e, h1)
             | Inr texts \<Rightarrow>
                 (case setitem_col_st year_data ''custom_text'' texts h1 of
                    (Inl e, h2) \<Rightarrow> (Inl e, h2)
                  | (Inr u, h2) \<Rightarrow>
                      (median_age_render_figure s (objs h2 year_data) is_projection, h2))))"

text \<open>The reactive calculations and renders of the two age dashboards, and the store
  after one of them has run, or after several have run one after the other.\<close>

datatype recomputation =
    GetPopulationData
  | GetMedianData
  | AgeDistributionPlot "real list"
  | AgeDistributionRender
  | MedianAgePlot
  | MedianAgeRender

fun run :: "globals \<Rightarrow> session \<times> recomputation \<Rightarrow> heap \<Rightarrow> heap" where
  "run g (s, GetPopulationData) h = snd (get_population_data_st g s h)"
| "run g (s, GetMedianData) h = snd (get_median_data_st g s h)"
| "run g (s, AgeDistributionPlot xticks) h = snd (age_distribution_plot_st g xticks s h)"
| "run g (s, AgeDistributionRender) h = snd (age_distribution_render_st g s h)"
| "run g (s, MedianAgePlot) h = snd (median_age_plot_st g s h)"
| "run g (s, MedianAgeRender) h = snd (median_age_render_st g s h)"

definition run_all :: "globals \<Rightarrow> (session \<times> recomputation) list \<Rightarrow> heap \<Rightarrow> heap" where
  "run_all g steps h = foldl (\<lambda>h step. run g step h) h steps"

definition example_heap :: heap where
  "example_heap =
     \<lparr>objs = (\<lambda>a. if a = 0 then example_male_df else if a = 1 then example_female_df
                   else example_median_df),
      nxt = 3\<rparr>"

definition example_globals :: globals where
  "example_globals =
     \<lparr>male_ref = 0, female_ref = 1, median_ref = 2, male_groups = [''100plus'', ''0_4'', ''5_9'']\<rparr>"

text \<open>
  \<open>preserves h h'\<close>: every data frame that exists in the store \<open>h\<close> is the same in
  \<open>h'\<close>. \<open>store_holds g h ds\<close>: the module-level names refer to the loaded tables
  \<open>ds\<close>.
\<close>

definition preserves :: "heap \<Rightarrow> heap \<Rightarrow> bool" where
  "preserves h h' = (nxt h \<le> nxt h' \<and> (\<forall>a < nxt h. objs h' a = objs h a))"

definition store_holds :: "globals \<Rightarrow> heap \<Rightarrow> dataset \<Rightarrow> bool" where
  "store_holds g h ds =
     (male_ref g < nxt h \<and> female_ref g < nxt h \<and> median_ref g < nxt h \<and>
      objs h (male_ref g) = male_popl_by_age_df ds \<and>
      objs h (female_ref g) = female_popl_by_age_df ds \<and>
      objs h (median_ref g) = median_df ds \<and>
      male_groups g = male_age_groups ds)"


section \<open>The state-growth dashboard pva/app\_2.py\<close>

text \<open>
  A row of \<^verbatim>\<open>df_states\<close>, the table prepared at load time (lines 22-36), with the
  columns that the reactive code reads. \<^verbatim>\<open>REGION_NAME\<close> is a string or NaN (a
  region code outside \<^verbatim>\<open>region_map\<close>); \<^verbatim>\<open>change_2010_2019\<close> is a float, \<open>None\<close>
  when NaN.
\<close>

record state_row =
  NAME :: string
  REGION_NAME :: "string option"
  change_2010_2019 :: "real option"

text \<open>\<^verbatim>\<open>df_states['REGION_NAME'].isin(regions)\<close> and \<^verbatim>\<open>df_states[mask]\<close>.\<close>

definition isin_region :: "state_row list \<Rightarrow> string list \<Rightarrow> bool list" where
  "isin_region df regions =
     map (\<lambda>r. case REGION_NAME r of None \<Rightarrow> False | Some name \<Rightarrow> name \<in> set regions) df"

definition states_getitem_mask :: "state_row list \<Rightarrow> bool list \<Rightarrow> state_row list" where
  "states_getitem_mask df m = map fst (filter snd (zip df m))"

text \<open>
  \<^verbatim>\<open>df.nlargest(n, 'change_2010_2019')\<close> of pandas, with the default
  \<^verbatim>\<open>keep='first'\<close>: the first \<open>n\<close> rows in descending order of the column, rows
  with equal values in table order, rows with NaN after all others; no row for
  \<open>n \<le> 0\<close>.
\<close>

definition descending_key :: "state_row \<Rightarrow> real" where
  "descending_key r = (case change_2010_2019 r of Some x \<Rightarrow> - x | None \<Rightarrow> 0)"

definition nlargest :: "int \<Rightarrow> state_row list \<Rightarrow> state_row list" where
  "nlargest n df =
     take (nat n)
       (sort_key descending_key (filter (\<lambda>r. change_2010_2019 r \<noteq> None) df) @
        filter (\<lambda>r. change_2010_2019 r = None) df)"

text \<open>
  The data of the bar chart \<^verbatim>\<open>population_widget\<close> (lines 85-158): the rows of
  \<^verbatim>\<open>plot_df\<close>, from which the chart takes the bar lengths, the state names and the
  colours by region.
\<close>

definition population_widget :: "state_row list \<Rightarrow> string list \<Rightarrow> int \<Rightarrow> state_row list" where
  "population_widget df_states regions top_n =
     (let filtered_df = states_getitem_mask df_states (isin_region df_states regions);
          plot_df = nlargest top_n filtered_df
      in plot_df)"

text \<open>
  \<^verbatim>\<open>Series.mean()\<close> of a float column: NaN is skipped, and the mean of no value
  is NaN. The mean of one or more doubles is computed by the library in floating point,
  with a rounding at every addition and at the division; it is the parameter
  \<open>float_mean\<close>.
\<close>

definition series_mean :: "(real list \<Rightarrow> real) \<Rightarrow> real option list \<Rightarrow> real option" where
  "series_mean float_mean vs =
     (let xs = map the (filter (\<lambda>v. v \<noteq> None) vs)
      in if xs = [] then None else Some (float_mean xs))"

text \<open>\<^verbatim>\<open>avg_growth\<close> (lines 178-194): the text of the value box.\<close>

definition avg_growth :: "(real list \<Rightarrow> real) \<Rightarrow> state_row list \<Rightarrow> string list \<Rightarrow> string" where
  "avg_growth float_mean df_states regions =
     (let filtered_df = states_getitem_mask df_states (isin_region df_states regions);
          avg = series_mean float_mean (map change_2010_2019 filtered_df)
      in format_1f_float avg @ ''%'')"

text \<open>The mean without rounding: what the library computes when every partial sum and
  the quotient are doubles, as they are for the rows below.\<close>

definition exact_mean :: "real list \<Rightarrow> real" where
  "exact_mean xs = sum_list xs / real (length xs)"

text \<open>A few rows in the format of \<^verbatim>\<open>df_states\<close>.\<close>

definition example_states :: "state_row list" where
  "example_states =
     [\<lparr>NAME = ''Texas'', REGION_NAME = Some ''South'', change_2010_2019 = Some 15\<rparr>,
      \<lparr>NAME = ''Utah'', REGION_NAME = Some ''West'', change_2010_2019 = Some 16\<rparr>,
      \<lparr>NAME = ''Illinois'', REGION_NAME = Some ''Midwest'', change_2010_2019 = Some (- 1 / 4)\<rparr>,
      \<lparr>NAME = ''Florida'', REGION_NAME = Some ''South'', change_2010_2019 = Some 14\<rparr>,
      \<lparr>NAME = ''Nevada'', REGION_NAME = Some ''West'', change_2010_2019 = Some 14\<rparr>]"

text \<open>
  The order in which \<open>nlargest\<close> lists rows: a row with a number comes before every
  row with a smaller or equal number that follows it, and before every row with NaN.
\<close>

definition growth_order :: "state_row \<Rightarrow> state_row \<Rightarrow> bool" where
  "growth_order p q =
     ((change_2010_2019 p = None \<longrightarrow> change_2010_2019 q = None) \<and>
      (\<forall>x y. change_2010_2019 p = Some x \<and> change_2010_2019 q = Some y \<longrightarrow> y \<le> x))"


section \<open>Properties of the animation loops\<close>

lemma playing_session_simps:
  "animating_age_distribution playing_session"
  "animating_median_age playing_session"
  "year playing_session = 1950"
  "median_year playing_session = 1950"
  "play_age_distribution_label playing_session = ''Pause''"
  by (simp_all add: playing_session_def on_play_median_age_def
      on_play_age_distribution_def initial_session_def)

lemma age_ticks_Suc:
  "age_ticks (Suc n) B s = fst (animate_age_distribution B (age_ticks n B s))"
  by (simp add: age_ticks_def)

lemma median_ticks_Suc:
  "median_ticks (Suc n) s = fst (animate_median_age (median_ticks n s))"
  by (simp add: median_ticks_def)

lemma age_tick_bounded:
  "year s \<le> B \<Longrightarrow> year (fst (animate_age_distribution B s)) \<le> B"
  by (simp add: animate_age_distribution_def Let_def)

lemma median_tick_bounded:
  "median_year s \<le> 2100 \<Longrightarrow> median_year (fst (animate_median_age s)) \<le> 2100"
  by (simp add: animate_median_age_def Let_def)

lemma age_ticks_bounded: "year s \<le> B \<Longrightarrow> year (age_ticks n B s) \<le> B"
proof (induction n)
  case 0
  then show ?case by (simp add: age_ticks_def)
next
  case (Suc n)
  then show ?case by (simp add: age_ticks_Suc age_tick_bounded)
qed

lemma median_ticks_bounded:
  "median_year s \<le> 2100 \<Longrightarrow> median_year (median_ticks n s) \<le> 2100"
proof (induction n)
  case 0
  then show ?case by (simp add: median_ticks_def)
next
  case (Suc n)
  then show ?case by (simp add: median_ticks_Suc median_tick_bounded)
qed

text \<open>While the bound is not reached, \<open>n\<close> runs advance the position by \<open>n\<close> and
  change nothing else.\<close>

lemma age_ticks_advance:
  "animating_age_distribution s \<Longrightarrow> year s + int n \<le> B \<Longrightarrow>
   age_ticks n B s = s\<lparr>year := year s + int n\<rparr>"
proof (induction n)
  case 0
  then show ?case by (simp add: age_ticks_def)
next
  case (Suc n)
  then have "age_ticks n B s = s\<lparr>year := year s + int n\<rparr>" by simp
  moreover have "year s + int n < B" using Suc.prems by simp
  ultimately show ?case using Suc.prems(1)
    by (simp add: age_ticks_Suc animate_age_distribution_def Let_def add.assoc)
qed

text \<open>
  C4. A run of either animation effect while Playing, at position \<open>P\<close> with bound \<open>B\<close>
  (\<open>max(available_years)\<close> for the age chart, 2100 for the median chart): when \<open>P < B\<close>
  the position becomes \<open>P + 1\<close>, the flag stays set and the next run is scheduled after
  0.05 s (age chart) or 0.25 s (median chart); when \<open>P \<ge> B\<close> the flag is cleared, the
  button label is reset to Play, the position is left alone and nothing is scheduled.
  A position that starts within the bound stays within it after any number of runs.
\<close>

theorem animation_tick_step:
  "(animating_age_distribution s \<longrightarrow>
      (if year s < B
       then animate_age_distribution B s = (s\<lparr>year := year s + 1\<rparr>, Some (1 / 20))
       else animate_age_distribution B s =
              (s\<lparr>animating_age_distribution := False,
                 play_age_distribution_label := ''Play''\<rparr>, None)) \<and>
      animating_age_distribution (fst (animate_age_distribution B s)) = (year s < B) \<and>
      (year s \<le> B \<longrightarrow> (\<forall>n. year (age_ticks n B s) \<le> B))) \<and>
   (animating_median_age s \<longrightarrow>
      (if median_year s < 2100
       then animate_median_age s = (s\<lparr>median_year := median_year s + 1\<rparr>, Some (1 / 4))
       else animate_median_age s =
              (s\<lparr>animating_median_age := False,
                 play_median_age_label := ''Play''\<rparr>, None)) \<and>
      animating_median_age (fst (animate_median_age s)) = (median_year s < 2100) \<and>
      (median_year s \<le> 2100 \<longrightarrow> (\<forall>n. median_year (median_ticks n s) \<le> 2100)))"
proof (intro conjI impI allI)
  assume a: "animating_age_distribution s"
  show "if year s < B
       then animate_age_distribution B s = (s\<lparr>year := year s + 1\<rparr>, Some (1 / 20))
       else animate_age_distribution B s =
              (s\<lparr>animating_age_distribution := False,
                 play_age_distribution_label := ''Play''\<rparr>, None)"
    using a by (simp add: animate_age_distribution_def Let_def)
  show "animating_age_distribution (fst (animate_age_distribution B s)) = (year s < B)"
    using a by (simp add: animate_age_distribution_def Let_def)
next
  fix n assume "year s \<le> B"
  then show "year (age_ticks n B s) \<le> B" by (rule age_ticks_bounded)
next
  assume a: "animating_median_age s"
  show "if median_year s < 2100
       then animate_median_age s = (s\<lparr>median_year := median_year s + 1\<rparr>, Some (1 / 4))
       else animate_median_age s =
              (s\<lparr>animating_median_age := False,
                 play_median_age_label := ''Play''\<rparr>, None)"
    using a by (simp add: animate_median_age_def Let_def)
  show "animating_median_age (fst (animate_median_age s)) = (median_year s < 2100)"
    using a by (simp add: animate_median_age_def Let_def)
next
  fix n assume "median_year s \<le> 2100"
  then show "median_year (median_ticks n s) \<le> 2100" by (rule median_ticks_bounded)
qed

theorem animation_tick_step_witness:
  "animating_age_distribution playing_session \<and> animating_median_age playing_session \<and>
   year playing_session \<le> 2023 \<and> median_year playing_session \<le> 2100 \<and>
   animate_age_distribution 2023 playing_session
     = (playing_session\<lparr>year := 1951\<rparr>, Some (1 / 20)) \<and>
   animate_median_age playing_session
     = (playing_session\<lparr>median_year := 1951\<rparr>, Some (1 / 4)) \<and>
   year (age_ticks 200 2023 playing_session) \<le> 2023 \<and>
   median_year (median_ticks 200 playing_session) \<le> 2100"
  using animation_tick_step [of playing_session 2023]
  by (simp add: playing_session_simps)

text \<open>
  C5 (as the code has it). Started Playing at position 1950 with bound 2023, every one
  of the first 73 runs advances by one, so after exactly 73 runs the position is 2023
  and the loop is still Playing; run 74 does not advance, clears the flag and resets the
  label to Play.
\<close>

theorem age_animation_1950_2023:
  assumes "animating_age_distribution s" and "year s = 1950"
  shows "(\<forall>k\<le>73. age_ticks k 2023 s = s\<lparr>year := 1950 + int k\<rparr>) \<and>
         year (age_ticks 73 2023 s) = 2023 \<and>
         animating_age_distribution (age_ticks 73 2023 s) \<and>
         age_ticks 74 2023 s =
           s\<lparr>year := 2023, animating_age_distribution := False,
             play_age_distribution_label := ''Play''\<rparr>"
proof -
  have adv: "age_ticks k 2023 s = s\<lparr>year := 1950 + int k\<rparr>" if "k \<le> 73" for k
    using age_ticks_advance [of s k 2023] assms that by simp
  have s73: "age_ticks 73 2023 s = s\<lparr>year := 2023\<rparr>"
    using adv [of 73] by simp
  have "age_ticks 74 2023 s = fst (animate_age_distribution 2023 (age_ticks 73 2023 s))"
    using age_ticks_Suc [of 73 2023 s] by simp
  then have s74: "age_ticks 74 2023 s =
           s\<lparr>year := 2023, animating_age_distribution := False,
             play_age_distribution_label := ''Play''\<rparr>"
    using assms(1) by (simp add: s73 animate_age_distribution_def Let_def)
  show ?thesis using adv s73 s74 assms(1) by simp
qed

theorem age_animation_1950_2023_witness:
  "animating_age_distribution playing_session \<and> year playing_session = 1950 \<and>
   year (age_ticks 73 2023 playing_session) = 2023 \<and>
   animating_age_distribution (age_ticks 73 2023 playing_session) \<and>
   year (age_ticks 74 2023 playing_session) = 2023 \<and>
   \<not> animating_age_distribution (age_ticks 74 2023 playing_session)"
  using age_animation_1950_2023 [of playing_session]
  by (simp add: playing_session_simps)

theorem age_animation_73_ticks_counterexample:
  "\<not> (year (age_ticks 73 2023 playing_session) = 2023 \<and>
      \<not> animating_age_distribution (age_ticks 73 2023 playing_session))"
proof -
  have "age_ticks 73 2023 playing_session = playing_session\<lparr>year := 1950 + int 73\<rparr>"
    using age_ticks_advance [of playing_session 73 2023]
    by (simp add: playing_session_simps)
  then show ?thesis by (simp add: playing_session_simps)
qed


section \<open>Properties of the reactive calculations\<close>

subsection \<open>Series and masks\<close>

lemma zip_map_same: "map f (zip xs (map g xs)) = map (\<lambda>x. f (x, g x)) xs"
  by (induction xs) simp_all

lemma filter_zip_mask: "map fst (filter snd (zip xs (map p xs))) = filter p xs"
  by (induction xs) simp_all

lemma getitem_mask_map: "getitem_mask df (map p (rows df)) = df\<lparr>rows := filter p (rows df)\<rparr>"
  by (simp add: getitem_mask_def filter_zip_mask)

lemma mask_and_map: "mask_and (map p xs) (map q xs) = map (\<lambda>x. p x \<and> q x) xs"
  by (induction xs) (simp_all add: mask_and_def)

lemma np_where_map:
  "np_where (map p xs) (map a xs) (map b xs) = map (\<lambda>x. if p x then a x else b x) xs"
  by (induction xs) (simp_all add: np_where_def)

lemma setitem_col_map:
  "setitem_col df c (map g (rows df)) =
     Inr \<lparr>columns = (if c \<in> set (columns df) then columns df else columns df @ [c]),
          rows = map (\<lambda>r. r\<lparr>metrics := (metrics r)(c \<mapsto> g r)\<rparr>) (rows df)\<rparr>"
  by (simp add: setitem_col_def zip_map_same)

lemma get_population_data_filter:
  "get_population_data ds s =
     ((male_popl_by_age_df ds)\<lparr>rows :=
         filter (\<lambda>r. entities r = entity s \<and> years r = year s) (rows (male_popl_by_age_df ds))\<rparr>,
      (female_popl_by_age_df ds)\<lparr>rows :=
         filter (\<lambda>r. entities r = entity s \<and> years r = year s) (rows (female_popl_by_age_df ds))\<rparr>)"
  by (simp add: get_population_data_def eq_entities_def eq_years_def mask_and_map
      getitem_mask_map)

text \<open>The row that \<^verbatim>\<open>get_median_data\<close> makes of a row of the median table.\<close>

lemma get_median_data_result:
  assumes "estimates_column \<in> set (columns (median_df ds))"
    and "medium_column \<in> set (columns (median_df ds))"
  shows "get_median_data ds s =
     Inr (\<lparr>columns = (if ''median_age_combined'' \<in> set (columns (median_df ds))
                      then columns (median_df ds)
                      else columns (median_df ds) @ [''median_age_combined'']),
           rows = map (\<lambda>r. r\<lparr>metrics := (metrics r)(''median_age_combined'' \<mapsto>
                             (if notna (cell r estimates_column) then cell r estimates_column
                              else cell r medium_column))\<rparr>)
                    (filter (\<lambda>r. entities r \<in> set median_regions \<and> years r = median_year s)
                       (rows (median_df ds)))\<rparr>,
          median_year s > 2023)"
proof -
  let ?F = "(median_df ds)\<lparr>rows := filter (\<lambda>r. entities r \<in> set median_regions)
                                        (rows (median_df ds))\<rparr>"
  let ?g = "\<lambda>r. if notna (cell r estimates_column) then cell r estimates_column
                else cell r medium_column"
  let ?u = "\<lambda>r. r\<lparr>metrics := (metrics r)(''median_age_combined'' \<mapsto> ?g r)\<rparr>"
  have F: "getitem_mask (median_df ds) (isin_entities (median_df ds) median_regions) = ?F"
    by (simp add: isin_entities_def getitem_mask_map)
  have est: "getitem_col ?F estimates_column = Inr (map (\<lambda>r. cell r estimates_column) (rows ?F))"
    using assms(1) by (simp add: getitem_col_def)
  have med: "getitem_col ?F medium_column = Inr (map (\<lambda>r. cell r medium_column) (rows ?F))"
    using assms(2) by (simp add: getitem_col_def)
  have w: "np_where (map notna (map (\<lambda>r. cell r estimates_column) (rows ?F)))
             (map (\<lambda>r. cell r estimates_column) (rows ?F))
             (map (\<lambda>r. cell r medium_column) (rows ?F)) = map ?g (rows ?F)"
    using np_where_map [of "\<lambda>r. notna (cell r estimates_column)" "rows ?F"
        "\<lambda>r. cell r estimates_column" "\<lambda>r. cell r medium_column"]
    by (simp add: o_def)
  have yrs: "eq_years d y = map (\<lambda>r. years r = y) (rows d)" for d y
    by (simp add: eq_years_def)
  have fm: "filter (\<lambda>r. years r = y) (map ?u xs) = map ?u (filter (\<lambda>r. years r = y) xs)"
    for y xs
    by (induction xs) simp_all
  show ?thesis
    unfolding get_median_data_def Let_def F
    by (simp only: est med w bindE_def sum.case setitem_col_map [of ?F] yrs getitem_mask_map)
       (simp add: fm)
qed

text \<open>
  C1. On a median table that has the two variant columns, \<^verbatim>\<open>get_median_data\<close>
  returns one row for each row of the table whose entity is one of the four regions and
  whose year is the selected one, and in each of them \<^verbatim>\<open>median_age_combined\<close> is
  the estimates value when that is not NaN and the medium-variant value otherwise: it
  is a function of these two cells alone.
\<close>

theorem median_age_combined_estimate_first:
  assumes "estimates_column \<in> set (columns (median_df ds))"
    and "medium_column \<in> set (columns (median_df ds))"
  shows "\<exists>year_data flag. get_median_data ds s = Inr (year_data, flag) \<and>
     rows year_data =
       map (\<lambda>r. r\<lparr>metrics := (metrics r)(''median_age_combined'' \<mapsto>
                    (case cell r estimates_column of NaN \<Rightarrow> cell r medium_column | v \<Rightarrow> v))\<rparr>)
         (filter (\<lambda>r. entities r \<in> set median_regions \<and> years r = median_year s)
            (rows (median_df ds))) \<and>
     (\<forall>r \<in> set (rows year_data).
        cell r ''median_age_combined'' =
          (if cell r estimates_column \<noteq> NaN then cell r estimates_column
           else cell r medium_column))"
proof -
  have c: "(case v of NaN \<Rightarrow> w | u \<Rightarrow> u) = (if notna v then v else w)" for v w
    by (cases v) (simp_all add: notna_def)
  have "cell (r\<lparr>metrics := (metrics r)(''median_age_combined'' \<mapsto> v)\<rparr>) estimates_column
          = cell r estimates_column" for r v
    by (simp add: cell_def estimates_column_def)
  moreover have "cell (r\<lparr>metrics := (metrics r)(''median_age_combined'' \<mapsto> v)\<rparr>) medium_column
          = cell r medium_column" for r v
    by (simp add: cell_def medium_column_def)
  moreover have "cell (r\<lparr>metrics := (metrics r)(''median_age_combined'' \<mapsto> v)\<rparr>)
          ''median_age_combined'' = v" for r v
    by (simp add: cell_def)
  ultimately show ?thesis
    unfolding get_median_data_result [OF assms]
    by (auto simp add: c notna_def split: val.split)
qed


theorem median_age_combined_estimate_first_witness:
  "estimates_column \<in> set (columns (median_df example_dataset)) \<and>
   medium_column \<in> set (columns (median_df example_dataset)) \<and>
   (\<exists>year_data flag.
      get_median_data example_dataset (initial_session\<lparr>median_year := 2023\<rparr>)
        = Inr (year_data, flag) \<and>
      map entities (rows year_data) = [''Asia (UN)'', ''Europe (UN)''] \<and>
      map (\<lambda>r. cell r ''median_age_combined'') (rows year_data) = [Num 31, Num 42]) \<and>
   (\<exists>year_data flag.
      get_median_data example_dataset (initial_session\<lparr>median_year := 2024\<rparr>)
        = Inr (year_data, flag) \<and>
      map (\<lambda>r. cell r ''median_age_combined'') (rows year_data) = [Num 32])"
proof -
  have c: "estimates_column \<in> set (columns (median_df example_dataset))"
    "medium_column \<in> set (columns (median_df example_dataset))"
    by (simp_all add: example_dataset_def example_median_df_def)
  show ?thesis
    using c median_age_combined_estimate_first
      [OF c, of "initial_session\<lparr>median_year := 2023\<rparr>"]
      median_age_combined_estimate_first
      [OF c, of "initial_session\<lparr>median_year := 2024\<rparr>"]
    by (auto simp add: example_dataset_def example_median_df_def example_row_def
        median_regions_def cell_def estimates_column_def medium_column_def)
qed

text \<open>
  C2. \<^verbatim>\<open>get_population_data\<close> returns, for each of the two population tables,
  exactly the rows whose entity and year both equal the selection, in table order. When
  no row of the male table, or no row of the female table, has the selected entity and
  year, that result is empty and both renders of the age pyramid return the placeholder
  figure, not an exception.
\<close>

theorem get_population_data_exact_match:
  "get_population_data ds s =
     ((male_popl_by_age_df ds)\<lparr>rows :=
         filter (\<lambda>r. entities r = entity s \<and> years r = year s) (rows (male_popl_by_age_df ds))\<rparr>,
      (female_popl_by_age_df ds)\<lparr>rows :=
         filter (\<lambda>r. entities r = entity s \<and> years r = year s) (rows (female_popl_by_age_df ds))\<rparr>) \<and>
   ((\<forall>r \<in> set (rows (male_popl_by_age_df ds)). \<not> (entities r = entity s \<and> years r = year s)) \<longrightarrow>
      rows (fst (get_population_data ds s)) = [] \<and>
      age_distribution_plot ds xticks s = Inr NoDataPlaceholder \<and>
      age_distribution_render ds s = Inr NoDataPlaceholder) \<and>
   ((\<forall>r \<in> set (rows (female_popl_by_age_df ds)). \<not> (entities r = entity s \<and> years r = year s)) \<longrightarrow>
      rows (snd (get_population_data ds s)) = [] \<and>
      age_distribution_plot ds xticks s = Inr NoDataPlaceholder \<and>
      age_distribution_render ds s = Inr NoDataPlaceholder)"
proof (intro conjI impI)
  show "get_population_data ds s =
     ((male_popl_by_age_df ds)\<lparr>rows :=
         filter (\<lambda>r. entities r = entity s \<and> years r = year s) (rows (male_popl_by_age_df ds))\<rparr>,
      (female_popl_by_age_df ds)\<lparr>rows :=
         filter (\<lambda>r. entities r = entity s \<and> years r = year s) (rows (female_popl_by_age_df ds))\<rparr>)"
    by (rule get_population_data_filter)
next
  assume "\<forall>r \<in> set (rows (male_popl_by_age_df ds)). \<not> (entities r = entity s \<and> years r = year s)"
  then have e: "filter (\<lambda>r. entities r = entity s \<and> years r = year s)
                  (rows (male_popl_by_age_df ds)) = []"
    by (simp add: filter_empty_conv)
  show "rows (fst (get_population_data ds s)) = []"
    by (simp add: get_population_data_filter e)
  show "age_distribution_plot ds xticks s = Inr NoDataPlaceholder"
    by (simp add: age_distribution_plot_def age_distribution_plot_body_def
        get_population_data_filter e df_empty_def)
  show "age_distribution_render ds s = Inr NoDataPlaceholder"
    by (simp add: age_distribution_render_def age_distribution_render_body_def
        get_population_data_filter e df_empty_def)
next
  assume "\<forall>r \<in> set (rows (female_popl_by_age_df ds)). \<not> (entities r = entity s \<and> years r = year s)"
  then have e: "filter (\<lambda>r. entities r = entity s \<and> years r = year s)
                  (rows (female_popl_by_age_df ds)) = []"
    by (simp add: filter_empty_conv)
  show "rows (snd (get_population_data ds s)) = []"
    by (simp add: get_population_data_filter e)
  show "age_distribution_plot ds xticks s = Inr NoDataPlaceholder"
    by (simp add: age_distribution_plot_def age_distribution_plot_body_def
        get_population_data_filter e df_empty_def)
  show "age_distribution_render ds s = Inr NoDataPlaceholder"
    by (simp add: age_distribution_render_def age_distribution_render_body_def
        get_population_data_filter e df_empty_def)
qed

theorem get_population_data_exact_match_witness:
  "filter (\<lambda>r. entities r = ''World'' \<and> years r = 1949)
     (rows (male_popl_by_age_df example_dataset)) = [] \<and>
   filter (\<lambda>r. entities r = ''Mars'' \<and> years r = 1950)
     (rows (female_popl_by_age_df example_dataset)) = [] \<and>
   rows (fst (get_population_data example_dataset (initial_session\<lparr>year := 1949\<rparr>))) = [] \<and>
   age_distribution_plot example_dataset [0, 1] (initial_session\<lparr>year := 1949\<rparr>)
     = Inr NoDataPlaceholder \<and>
   age_distribution_render example_dataset (initial_session\<lparr>entity := ''Mars''\<rparr>)
     = Inr NoDataPlaceholder \<and>
   map years (rows (fst (get_population_data example_dataset (initial_session\<lparr>year := 1951\<rparr>))))
     = [1951]"
  using get_population_data_exact_match
      [of example_dataset "initial_session\<lparr>year := 1949\<rparr>" "[0, 1]"]
    get_population_data_exact_match
      [of example_dataset "initial_session\<lparr>entity := ''Mars''\<rparr>" "[]"]
    get_population_data_exact_match
      [of example_dataset "initial_session\<lparr>year := 1951\<rparr>" "[]"]
  by (simp add: example_dataset_def example_male_df_def example_female_df_def
      example_row_def initial_session_def)

text \<open>
  C3. The is-projection flag that \<^verbatim>\<open>get_median_data\<close> returns, whenever it returns,
  is the comparison \<open>median_year > 2023\<close> and nothing else, whatever the table holds;
  on a table with the two variant columns it does return. \<^verbatim>\<open>projection_info\<close>
  emits the note "Projektion" exactly when \<open>median_year > 2023\<close>. For the years 1950,
  2023, 2024 and 2100 the flag is false, false, true, true.
\<close>

theorem is_projection_iff_after_2023:
  "(\<forall>year_data flag. get_median_data ds s = Inr (year_data, flag) \<longrightarrow>
      flag = (median_year s > 2023)) \<and>
   (estimates_column \<in> set (columns (median_df ds)) \<and>
    medium_column \<in> set (columns (median_df ds)) \<longrightarrow>
      (\<exists>year_data. get_median_data ds s = Inr (year_data, median_year s > 2023))) \<and>
   (projection_info s = ''<span class='projection-note'>Projektion</span>'')
      = (median_year s > 2023) \<and>
   (projection_info s = ''<span>Historische Daten</span>'') = (\<not> median_year s > 2023) \<and>
   map (\<lambda>y. projection_info (s\<lparr>median_year := y\<rparr>)
              = ''<span class='projection-note'>Projektion</span>'')
       [1950, 2023, 2024, 2100] = [False, False, True, True] \<and>
   (estimates_column \<in> set (columns (median_df ds)) \<and>
    medium_column \<in> set (columns (median_df ds)) \<longrightarrow>
      map (\<lambda>y. map_sum id snd (get_median_data ds (s\<lparr>median_year := y\<rparr>)))
        [1950, 2023, 2024, 2100] = [Inr False, Inr False, Inr True, Inr True])"
proof (intro conjI allI impI)
  fix year_data flag
  assume "get_median_data ds s = Inr (year_data, flag)"
  then show "flag = (median_year s > 2023)"
    by (auto simp add: get_median_data_def bindE_def Let_def split: sum.splits)
next
  assume "estimates_column \<in> set (columns (median_df ds)) \<and>
          medium_column \<in> set (columns (median_df ds))"
  then show "\<exists>year_data. get_median_data ds s = Inr (year_data, median_year s > 2023)"
    by (simp add: get_median_data_result)
next
  show "(projection_info s = ''<span class='projection-note'>Projektion</span>'')
      = (median_year s > 2023)"
    by (simp add: projection_info_def)
  show "(projection_info s = ''<span>Historische Daten</span>'') = (\<not> median_year s > 2023)"
    by (simp add: projection_info_def)
  show "map (\<lambda>y. projection_info (s\<lparr>median_year := y\<rparr>)
              = ''<span class='projection-note'>Projektion</span>'')
       [1950, 2023, 2024, 2100] = [False, False, True, True]"
    by (simp add: projection_info_def)
next
  assume "estimates_column \<in> set (columns (median_df ds)) \<and>
          medium_column \<in> set (columns (median_df ds))"
  then have "map_sum id snd (get_median_data ds t) = Inr (median_year t > 2023)" for t
    by (simp add: get_median_data_result)
  then show "map (\<lambda>y. map_sum id snd (get_median_data ds (s\<lparr>median_year := y\<rparr>)))
        [1950, 2023, 2024, 2100] = [Inr False, Inr False, Inr True, Inr True]"
    by simp
qed

theorem is_projection_iff_after_2023_witness:
  "estimates_column \<in> set (columns (median_df example_dataset)) \<and>
   medium_column \<in> set (columns (median_df example_dataset)) \<and>
   (\<exists>year_data. get_median_data example_dataset (initial_session\<lparr>median_year := 2024\<rparr>)
                  = Inr (year_data, True)) \<and>
   (\<exists>year_data. get_median_data example_dataset (initial_session\<lparr>median_year := 2100\<rparr>)
                  = Inr (year_data, True)) \<and>
   (\<exists>year_data. get_median_data example_dataset (initial_session\<lparr>median_year := 2023\<rparr>)
                  = Inr (year_data, False)) \<and>
   (\<exists>year_data. get_median_data example_dataset (initial_session\<lparr>median_year := 1950\<rparr>)
                  = Inr (year_data, False))"
  using is_projection_iff_after_2023 [of example_dataset "initial_session\<lparr>median_year := 2024\<rparr>"]
    is_projection_iff_after_2023 [of example_dataset "initial_session\<lparr>median_year := 2100\<rparr>"]
    is_projection_iff_after_2023 [of example_dataset "initial_session\<lparr>median_year := 2023\<rparr>"]
    is_projection_iff_after_2023 [of example_dataset "initial_session\<lparr>median_year := 1950\<rparr>"]
  by (simp add: example_dataset_def example_median_df_def)


section \<open>Properties of the age pyramid renders\<close>

subsection \<open>Loops and sorting\<close>

lemma mapE_Inr_iff: "mapE f xs = Inr ys \<longleftrightarrow> map f xs = map Inr ys"
proof (induction xs arbitrary: ys)
  case Nil
  then show ?case by auto
next
  case (Cons x xs)
  show ?case
  proof (cases "f x")
    case (Inl e)
    then show ?thesis by (auto simp add: bindE_def)
  next
    case (Inr y)
    show ?thesis
    proof (cases "mapE f xs")
      case (Inl e)
      then show ?thesis using Inr Cons.IH by (auto simp add: bindE_def)
    next
      case r: (Inr zs)
      then show ?thesis using Inr Cons.IH [of zs] by (auto simp add: bindE_def)
    qed
  qed
qed

lemma insort_key_pair:
  "insort_key fst (k x, x) (map (\<lambda>y. (k y, y)) ys) = map (\<lambda>y. (k y, y)) (insort_key k x ys)"
  by (induction ys) simp_all

lemma sort_key_pair:
  "sort_key fst (map (\<lambda>y. (k y, y)) xs) = map (\<lambda>y. (k y, y)) (sort_key k xs)"
  by (induction xs) (simp_all add: insort_key_pair)

text \<open>When \<^verbatim>\<open>sorted\<close> returns, every key was computed and the result is the stable
  sort of the list by these keys.\<close>

lemma py_sorted_Inr:
  assumes "py_sorted key xs = Inr ys"
  shows "ys = sort_key (key_of key) xs \<and> (\<forall>x \<in> set xs. key x = Inr (key_of key x))"
proof -
  from assms obtain ks where ks: "mapE key xs = Inr ks"
    and ys: "ys = map snd (sort_key fst (zip ks xs))"
    by (auto simp add: py_sorted_def bindE_def split: sum.splits)
  from ks have m: "map key xs = map Inr ks" by (simp add: mapE_Inr_iff)
  then have len: "length ks = length xs" by (metis length_map)
  have k: "key (xs ! i) = Inr (ks ! i)" if "i < length xs" for i
    using m that len by (metis nth_map)
  have all: "\<forall>x \<in> set xs. key x = Inr (key_of key x)"
    by (auto simp add: in_set_conv_nth key_of_def k)
  have "ks = map (key_of key) xs"
    using len by (auto simp add: list_eq_iff_nth_eq key_of_def k)
  then have "zip ks xs = map (\<lambda>x. (key_of key x, x)) xs"
    by (simp add: zip_map1 zip_same_conv_map)
  then have "ys = sort_key (key_of key) xs"
    by (simp add: ys sort_key_pair o_def)
  with all show ?thesis by simp
qed

subsection \<open>One age group\<close>

lemma neg_true_div_commute:
  "bindE (neg v) (\<lambda>t. true_div t d) = bindE (true_div v d) neg"
  by (cases v) (simp_all add: bindE_def)

text \<open>The two dashboards compute the same label and the same two bars for an age
  group, and fail on the same inputs in the same way.\<close>

lemma render_entry_eq_plot_entry: "render_entry m f g = plot_entry m f g"
proof (cases "age_label_of g")
  case (Inl e)
  then show ?thesis by (simp add: render_entry_def plot_entry_def bindE_def)
next
  case lab: (Inr l)
  show ?thesis
  proof (cases "iloc0 m (col_male g)")
    case (Inl e)
    then show ?thesis using lab by (simp add: render_entry_def plot_entry_def bindE_def)
  next
    case (Inr v)
    then show ?thesis using lab
      by (cases v) (simp_all add: render_entry_def plot_entry_def bindE_def split: sum.splits)
  qed
qed

lemma iloc0_nonempty:
  "rows df \<noteq> [] \<Longrightarrow>
   iloc0 df c = (if c \<in> set (columns df) then Inr (cell (hd (rows df)) c) else Inl KeyError)"
  by (cases "rows df") (simp_all add: iloc0_def getitem_col_def bindE_def py_index_def)

lemma plot_entry_Inr:
  assumes "rows m \<noteq> []" "rows f \<noteq> []" "plot_entry m f g = Inr (lab, mb, fb)"
  shows "age_label_of g = Inr lab \<and>
         bindE (true_div (cell (hd (rows m)) (col_male g)) 1000000) neg = Inr mb \<and>
         true_div (cell (hd (rows f)) (col_female g)) 1000000 = Inr fb"
  using assms(3) unfolding plot_entry_def iloc0_nonempty [OF assms(1)] iloc0_nonempty [OF assms(2)]
  by (auto simp add: bindE_def split: sum.splits if_splits)

lemma entries_Inr:
  assumes "rows m \<noteq> []" "rows f \<noteq> []" "mapE (plot_entry m f) gs = Inr entries"
  shows "map age_label_of gs = map Inr (map fst entries) \<and>
         map (\<lambda>g. bindE (true_div (cell (hd (rows m)) (col_male g)) 1000000) neg) gs
           = map Inr (map (\<lambda>e. fst (snd e)) entries) \<and>
         map (\<lambda>g. true_div (cell (hd (rows f)) (col_female g)) 1000000) gs
           = map Inr (map (\<lambda>e. snd (snd e)) entries)"
proof -
  from assms(3) have m: "map (plot_entry m f) gs = map Inr entries"
    by (simp add: mapE_Inr_iff)
  then have len: "length entries = length gs" by (metis length_map)
  have e: "plot_entry m f (gs ! i)
             = Inr (fst (entries ! i), fst (snd (entries ! i)), snd (snd (entries ! i)))"
    if "i < length gs" for i
    using m that len by (metis nth_map prod.collapse)
  show ?thesis
    using len plot_entry_Inr [OF assms(1,2) e]
    by (simp add: list_eq_iff_nth_eq)
qed

subsection \<open>Tick labels\<close>

lemma abs_int_of_float: "\<bar>int_of_float x\<bar> = \<lfloor>\<bar>x\<bar>\<rfloor>"
proof (cases "x < 0")
  case True
  then have "0 \<le> \<lfloor>- x\<rfloor>" by simp
  then show ?thesis using True by (simp add: int_of_float_def ceiling_def)
next
  case False
  then show ?thesis by (simp add: int_of_float_def)
qed

lemma tick_label_floor: "tick_label x = py_str \<lfloor>\<bar>x\<bar>\<rfloor>"
  by (simp add: tick_label_def abs_int_of_float)

subsection \<open>The figures\<close>

lemma plot_body_Pyramid:
  assumes "age_distribution_plot_body gs xticks s (m, f) = Inr (Pyramid p)"
  shows "rows m \<noteq> [] \<and> rows f \<noteq> [] \<and>
     (\<exists>entries. mapE (plot_entry m f) (sort_key (key_of age_key) gs) = Inr entries \<and>
        py_sorted age_key gs = Inr (sort_key (key_of age_key) gs) \<and>
        (\<forall>g \<in> set gs. age_key g = Inr (key_of age_key g)) \<and>
        p = \<lparr>fig_title = plot_title s, bracket_labels = map fst entries,
             male_series = map (\<lambda>e. fst (snd e)) entries,
             female_series = map (\<lambda>e. snd (snd e)) entries,
             tick_labels = map tick_label xticks\<rparr>)"
proof -
  from assms obtain sgs entries where s: "py_sorted age_key gs = Inr sgs"
    and e: "mapE (plot_entry m f) sgs = Inr entries"
    and ne: "rows m \<noteq> []" "rows f \<noteq> []"
    and p: "p = \<lparr>fig_title = plot_title s, bracket_labels = map fst entries,
             male_series = map (\<lambda>e. fst (snd e)) entries,
             female_series = map (\<lambda>e. snd (snd e)) entries,
             tick_labels = map tick_label xticks\<rparr>"
    by (auto simp add: age_distribution_plot_body_def df_empty_def bindE_def
        split: if_splits sum.splits)
  from py_sorted_Inr [OF s] s e ne p show ?thesis by simp
qed

lemma render_body_Pyramid:
  assumes "age_distribution_render_body gs s (m, f) = Inr (Pyramid p)"
  shows "rows m \<noteq> [] \<and> rows f \<noteq> [] \<and>
     (\<exists>entries ticktext. mapE (plot_entry m f) gs = Inr entries \<and>
        mapE tick_text (map (\<lambda>e. fst (snd e)) entries) = Inr ticktext \<and>
        p = \<lparr>fig_title = plot_title s, bracket_labels = map fst entries,
             male_series = map (\<lambda>e. fst (snd e)) entries,
             female_series = map (\<lambda>e. snd (snd e)) entries,
             tick_labels = ticktext\<rparr>)"
  using assms
  by (auto simp add: age_distribution_render_body_def df_empty_def bindE_def
      render_entry_eq_plot_entry [abs_def]
      split: if_splits sum.splits)

lemmas example_data_defs =
  example_dataset_def example_male_df_def example_female_df_def example_row_def
  initial_session_def col_male_def col_female_def

lemmas render_eval_defs =
  get_population_data_filter df_empty_def age_label_of_def iloc0_def getitem_col_def cell_def
  bindE_def py_index_def py_split.simps plot_title_def py_str_def str_nat.simps
  tick_label_floor

lemmas sort_eval_defs =
  py_sorted_def age_key_def py_int_def py_strip_def is_space_def parse_unsigned_def
  digit_val_def


subsection \<open>Labels and order of the age groups\<close>

lemma py_split_underscore:
  "CHR ''_'' \<notin> set lo \<Longrightarrow> py_split ''_'' (lo @ CHR ''_'' # hi) = lo # py_split ''_'' hi"
proof (induction lo)
  case Nil
  show ?case by (subst py_split.simps) simp
next
  case (Cons c lo)
  then show ?case by (subst py_split.simps) simp
qed

lemma py_split_no_sep: "CHR ''_'' \<notin> set hi \<Longrightarrow> py_split ''_'' hi = [hi]"
proof (induction hi)
  case Nil
  show ?case by (subst py_split.simps) simp
next
  case (Cons c hi)
  then show ?case by (subst py_split.simps) simp
qed

lemma bracket_label_and_key:
  "age_label_of ''100plus'' = Inr ''100+'' \<and> age_key ''100plus'' = Inr 100 \<and>
   (CHR ''_'' \<notin> set lo \<longrightarrow>
      age_key (lo @ ''_'' @ hi) = py_int lo \<and>
      (CHR ''_'' \<notin> set hi \<longrightarrow> age_label_of (lo @ ''_'' @ hi) = Inr (lo @ ''-'' @ hi)))"
proof -
  have ne: "lo @ ''_'' @ hi \<noteq> ''100plus''"
  proof
    assume e: "lo @ ''_'' @ hi = ''100plus''"
    have "CHR ''_'' \<in> set (lo @ ''_'' @ hi)" by simp
    then have "CHR ''_'' \<in> set ''100plus''" by (simp only: e)
    then show False by simp
  qed
  have "age_label_of ''100plus'' = Inr ''100+''" by (simp add: age_label_of_def)
  moreover have "age_key ''100plus'' = Inr 100" by (simp add: age_key_def)
  moreover have "age_key (lo @ ''_'' @ hi) = py_int lo" if "CHR ''_'' \<notin> set lo"
    using ne that by (simp add: age_key_def py_split_underscore py_index_def bindE_def)
  moreover have "age_label_of (lo @ ''_'' @ hi) = Inr (lo @ ''-'' @ hi)"
    if "CHR ''_'' \<notin> set lo" "CHR ''_'' \<notin> set hi"
    using ne that
    by (simp add: age_label_of_def py_split_underscore py_split_no_sep py_index_def bindE_def)
  ultimately show ?thesis by blast
qed

text \<open>
  In the pyramid of age\_app.py the age groups appear in the stable ascending order of
  their sort keys (the lower bound, 100 for \<^verbatim>\<open>100plus\<close>), and each label is the one
  \<open>age_label_of\<close> gives.
\<close>

lemma age_distribution_plot_order:
  assumes "age_distribution_plot ds xticks s = Inr (Pyramid p)"
  shows "\<exists>groups. py_sorted age_key (male_age_groups ds) = Inr groups \<and>
           mset groups = mset (male_age_groups ds) \<and>
           sorted (map (key_of age_key) groups) \<and>
           (\<forall>g \<in> set groups. age_key g = Inr (key_of age_key g)) \<and>
           (\<forall>k. filter (\<lambda>g. key_of age_key g = k) groups
                  = filter (\<lambda>g. key_of age_key g = k) (male_age_groups ds)) \<and>
           map Inr (bracket_labels p) = map age_label_of groups"
proof -
  obtain m f where mf: "get_population_data ds s = (m, f)" by (cases "get_population_data ds s")
  from assms have "age_distribution_plot_body (male_age_groups ds) xticks s (m, f) = Inr (Pyramid p)"
    by (simp add: age_distribution_plot_def mf)
  from plot_body_Pyramid [OF this] obtain entries where
    ne: "rows m \<noteq> []" "rows f \<noteq> []"
    and e: "mapE (plot_entry m f) (sort_key (key_of age_key) (male_age_groups ds)) = Inr entries"
    and srt: "py_sorted age_key (male_age_groups ds)
               = Inr (sort_key (key_of age_key) (male_age_groups ds))"
    and keys: "\<forall>g \<in> set (male_age_groups ds). age_key g = Inr (key_of age_key g)"
    and p: "p = \<lparr>fig_title = plot_title s, bracket_labels = map fst entries,
             male_series = map (\<lambda>e. fst (snd e)) entries,
             female_series = map (\<lambda>e. snd (snd e)) entries,
             tick_labels = map tick_label xticks\<rparr>"
    by blast
  from entries_Inr [OF ne e] srt keys p show ?thesis
    by (simp add: sort_key_stable)
qed

text \<open>
  C7. The pyramid of age\_app\_shiny.py walks \<^verbatim>\<open>male_age_groups\<close> in the order
  of the table's columns and does not sort it. On a table whose columns are the age
  groups \<^verbatim>\<open>100plus\<close>, \<^verbatim>\<open>0_4\<close>, \<^verbatim>\<open>5_9\<close> in this order, it displays the labels
  100+, 0-4, 5-9, where the pyramid of age\_app.py displays 0-4, 5-9, 100+.
\<close>

theorem age_distribution_render_keeps_column_order:
  "load_dataset example_male_df example_female_df example_median_df = Inr example_dataset \<and>
   age_distribution_render example_dataset initial_session =
     Inr (Pyramid \<lparr>fig_title = ''Altersverteilung - World (1950)'',
          bracket_labels = [''100+'', ''0-4'', ''5-9''],
          male_series = [Num (- 1), Num (- 3), Num (- 2)],
          female_series = [Num 2, Num 4, Num 6],
          tick_labels = [''1'', ''3'', ''2'']\<rparr>) \<and>
   age_distribution_plot example_dataset [] initial_session =
     Inr (Pyramid \<lparr>fig_title = ''Altersverteilung - World (1950)'',
          bracket_labels = [''0-4'', ''5-9'', ''100+''],
          male_series = [Num (- 3), Num (- 2), Num (- 1)],
          female_series = [Num 4, Num 6, Num 2],
          tick_labels = []\<rparr>)"
  by (simp add: load_dataset_def extract_age_groups_def
      age_distribution_plot_def age_distribution_plot_body_def
      age_distribution_render_def age_distribution_render_body_def plot_entry_def
      render_entry_def example_data_defs render_eval_defs sort_eval_defs)

text \<open>
  In a pyramid that is not the placeholder, for every displayed age group the male value
  is the negation of the male population divided by 1000000 and the female value is the
  female population divided by 1000000, read off the first selected row.
\<close>

lemma pyramid_series_values:
  "(age_distribution_plot ds xticks s = Inr (Pyramid p) \<longrightarrow>
      (\<exists>male_data female_data groups.
         get_population_data ds s = (male_data, female_data) \<and>
         rows male_data \<noteq> [] \<and> rows female_data \<noteq> [] \<and>
         py_sorted age_key (male_age_groups ds) = Inr groups \<and>
         map Inr (male_series p) =
           map (\<lambda>g. bindE (true_div (cell (hd (rows male_data)) (col_male g)) 1000000) neg) groups \<and>
         map Inr (female_series p) =
           map (\<lambda>g. true_div (cell (hd (rows female_data)) (col_female g)) 1000000) groups)) \<and>
   (age_distribution_render ds s = Inr (Pyramid q) \<longrightarrow>
      (\<exists>male_data female_data.
         get_population_data ds s = (male_data, female_data) \<and>
         rows male_data \<noteq> [] \<and> rows female_data \<noteq> [] \<and>
         map Inr (male_series q) =
           map (\<lambda>g. bindE (true_div (cell (hd (rows male_data)) (col_male g)) 1000000) neg)
             (male_age_groups ds) \<and>
         map Inr (female_series q) =
           map (\<lambda>g. true_div (cell (hd (rows female_data)) (col_female g)) 1000000)
             (male_age_groups ds))) \<and>
   bindE (true_div (Num a) 1000000) neg = Inr (Num (- (a / 1000000))) \<and>
   true_div (Num a) 1000000 = Inr (Num (a / 1000000))"
proof (intro conjI impI)
  assume a: "age_distribution_plot ds xticks s = Inr (Pyramid p)"
  obtain m f where mf: "get_population_data ds s = (m, f)" by (cases "get_population_data ds s")
  from a have "age_distribution_plot_body (male_age_groups ds) xticks s (m, f) = Inr (Pyramid p)"
    by (simp add: age_distribution_plot_def mf)
  from plot_body_Pyramid [OF this] obtain entries where
    ne: "rows m \<noteq> []" "rows f \<noteq> []"
    and e: "mapE (plot_entry m f) (sort_key (key_of age_key) (male_age_groups ds)) = Inr entries"
    and srt: "py_sorted age_key (male_age_groups ds)
               = Inr (sort_key (key_of age_key) (male_age_groups ds))"
    and p: "p = \<lparr>fig_title = plot_title s, bracket_labels = map fst entries,
             male_series = map (\<lambda>e. fst (snd e)) entries,
             female_series = map (\<lambda>e. snd (snd e)) entries,
             tick_labels = map tick_label xticks\<rparr>"
    by blast
  from entries_Inr [OF ne e] ne srt mf p
  show "\<exists>male_data female_data groups.
         get_population_data ds s = (male_data, female_data) \<and>
         rows male_data \<noteq> [] \<and> rows female_data \<noteq> [] \<and>
         py_sorted age_key (male_age_groups ds) = Inr groups \<and>
         map Inr (male_series p) =
           map (\<lambda>g. bindE (true_div (cell (hd (rows male_data)) (col_male g)) 1000000) neg) groups \<and>
         map Inr (female_series p) =
           map (\<lambda>g. true_div (cell (hd (rows female_data)) (col_female g)) 1000000) groups"
    by simp
next
  assume a: "age_distribution_render ds s = Inr (Pyramid q)"
  obtain m f where mf: "get_population_data ds s = (m, f)" by (cases "get_population_data ds s")
  from a have "age_distribution_render_body (male_age_groups ds) s (m, f) = Inr (Pyramid q)"
    by (simp add: age_distribution_render_def mf)
  from render_body_Pyramid [OF this] obtain entries ticktext where
    ne: "rows m \<noteq> []" "rows f \<noteq> []"
    and e: "mapE (plot_entry m f) (male_age_groups ds) = Inr entries"
    and q: "q = \<lparr>fig_title = plot_title s, bracket_labels = map fst entries,
             male_series = map (\<lambda>e. fst (snd e)) entries,
             female_series = map (\<lambda>e. snd (snd e)) entries,
             tick_labels = ticktext\<rparr>"
    by blast
  from entries_Inr [OF ne e] ne mf q
  show "\<exists>male_data female_data.
         get_population_data ds s = (male_data, female_data) \<and>
         rows male_data \<noteq> [] \<and> rows female_data \<noteq> [] \<and>
         map Inr (male_series q) =
           map (\<lambda>g. bindE (true_div (cell (hd (rows male_data)) (col_male g)) 1000000) neg)
             (male_age_groups ds) \<and>
         map Inr (female_series q) =
           map (\<lambda>g. true_div (cell (hd (rows female_data)) (col_female g)) 1000000)
             (male_age_groups ds)"
    by simp
next
  show "bindE (true_div (Num a) 1000000) neg = Inr (Num (- (a / 1000000)))"
    by (simp add: bindE_def)
  show "true_div (Num a) 1000000 = Inr (Num (a / 1000000))" by simp
qed

text \<open>\<^verbatim>\<open>abs(int(x))\<close> is the magnitude of \<open>x\<close> exactly when \<open>x\<close> is an integer;
  otherwise it is smaller.\<close>

lemma abs_int_of_float_magnitude:
  "(real_of_int \<bar>int_of_float x\<bar> = \<bar>x\<bar>) = (x \<in> \<int>) \<and> real_of_int \<bar>int_of_float x\<bar> \<le> \<bar>x\<bar>"
proof -
  have "(real_of_int \<lfloor>\<bar>x\<bar>\<rfloor> = \<bar>x\<bar>) = (\<bar>x\<bar> \<in> \<int>)"
    by (auto simp add: Ints_def)
  moreover have "(\<bar>x\<bar> \<in> \<int>) = (x \<in> \<int>)"
    by (cases "x < 0") (auto simp add: abs_if)
  ultimately show ?thesis by (simp add: abs_int_of_float)
qed

text \<open>
  C8. The male bars are the negated male populations in millions and the female bars are
  not negated, but the tick labels are not the magnitudes of the tick values. For an
  entity with less than one million persons per age group the bars of age\_app.py are
  fractions and so are the tick positions, and the line under the comment "Format x-axis
  to show positive numbers" labels every tick 0, because \<^verbatim>\<open>int\<close> truncates before
  \<^verbatim>\<open>abs\<close> is taken. On the same selection age\_app\_shiny.py computes its tick texts
  from the values of the male bars, in the order of the table's columns, and truncates
  them in the same way.
\<close>

theorem pyramid_tick_labels_truncated:
  "age_distribution_plot example_dataset [- 1 / 2, - 1 / 4, 0, 1 / 4, 1 / 2]
       (initial_session\<lparr>entity := ''Malta''\<rparr>) =
     Inr (Pyramid \<lparr>fig_title = ''Altersverteilung - Malta (1950)'',
          bracket_labels = [''0-4'', ''5-9'', ''100+''],
          male_series = [Num (- 1 / 2), Num (- 1 / 4), Num (- 1 / 8)],
          female_series = [Num (1 / 2), Num (1 / 8), Num (1 / 4)],
          tick_labels = [''0'', ''0'', ''0'', ''0'', ''0'']\<rparr>) \<and>
   real_of_int \<bar>int_of_float (- 1 / 2)\<bar> \<noteq> \<bar>- 1 / 2\<bar> \<and>
   age_distribution_render example_dataset (initial_session\<lparr>entity := ''Malta''\<rparr>) =
     Inr (Pyramid \<lparr>fig_title = ''Altersverteilung - Malta (1950)'',
          bracket_labels = [''100+'', ''0-4'', ''5-9''],
          male_series = [Num (- 1 / 8), Num (- 1 / 2), Num (- 1 / 4)],
          female_series = [Num (1 / 4), Num (1 / 2), Num (1 / 8)],
          tick_labels = [''0'', ''0'', ''0'']\<rparr>)"
  by (simp add: age_distribution_plot_def age_distribution_plot_body_def plot_entry_def
      age_distribution_render_def age_distribution_render_body_def render_entry_def
      example_data_defs render_eval_defs sort_eval_defs abs_int_of_float)


section \<open>Properties of the state-growth dashboard\<close>

lemma filtered_states:
  "states_getitem_mask df (isin_region df regions) =
     filter (\<lambda>r. case REGION_NAME r of None \<Rightarrow> False | Some name \<Rightarrow> name \<in> set regions) df"
  by (simp add: states_getitem_mask_def isin_region_def filter_zip_mask)

lemma sorted_wrt_growth_order:
  "sorted_wrt growth_order
     (sort_key descending_key (filter (\<lambda>r. change_2010_2019 r \<noteq> None) df) @
      filter (\<lambda>r. change_2010_2019 r = None) df)"
proof -
  define A where "A = sort_key descending_key (filter (\<lambda>r. change_2010_2019 r \<noteq> None) df)"
  define B where "B = filter (\<lambda>r. change_2010_2019 r = None) df"
  have inA: "change_2010_2019 p \<noteq> None" if "p \<in> set A" for p
    using that by (simp add: A_def)
  have inB: "change_2010_2019 q = None" if "q \<in> set B" for q
    using that by (simp add: B_def)
  have "sorted (map descending_key A)"
    unfolding A_def by (rule sorted_sort_key)
  then have sw: "sorted_wrt (\<lambda>p q. descending_key p \<le> descending_key q) A"
    by (simp only: sorted_map)
  have A: "sorted_wrt growth_order A"
  proof (rule sorted_wrt_mono_rel [OF _ sw])
    fix p q
    assume "p \<in> set A" "q \<in> set A" and le: "descending_key p \<le> descending_key q"
    then obtain x y where "change_2010_2019 p = Some x" "change_2010_2019 q = Some y"
      using inA by fastforce
    with le show "growth_order p q"
      by (simp add: growth_order_def descending_key_def)
  qed
  have B: "sorted_wrt growth_order B"
  proof (rule sorted_wrt_mono_rel [OF _ sorted_wrt_true])
    fix p q
    assume "p \<in> set B" "q \<in> set B"
    then show "growth_order p q" using inB by (simp add: growth_order_def)
  qed
  have "\<forall>p \<in> set A. \<forall>q \<in> set B. growth_order p q"
    using inB by (simp add: growth_order_def)
  with A B have "sorted_wrt growth_order (A @ B)"
    by (simp only: sorted_wrt_append simp_thms)
  then show ?thesis by (simp only: A_def B_def)
qed

lemma take_drop_sorted_wrt:
  "sorted_wrt R L \<Longrightarrow> \<forall>p \<in> set (take k L). \<forall>q \<in> set (drop k L). R p q"
proof -
  assume "sorted_wrt R L"
  then have "sorted_wrt R (take k L @ drop k L)" by simp
  then show ?thesis unfolding sorted_wrt_append by blast
qed

lemma nlargest_split:
  "\<exists>rest. mset df = mset (nlargest n df) + mset rest \<and>
     (\<forall>p \<in> set (nlargest n df). \<forall>q \<in> set rest. growth_order p q) \<and>
     length (nlargest n df) = min (nat n) (length df)"
proof -
  define L where "L = sort_key descending_key (filter (\<lambda>r. change_2010_2019 r \<noteq> None) df) @
            filter (\<lambda>r. change_2010_2019 r = None) df"
  have n: "nlargest n df = take (nat n) L" by (simp add: nlargest_def L_def)
  have m: "mset L = mset df" by (simp add: L_def)
  then have "size (mset L) = size (mset df)" by simp
  then have len: "length L = length df" by simp
  have s: "sorted_wrt growth_order L"
    unfolding L_def by (rule sorted_wrt_growth_order)
  have o: "\<forall>p \<in> set (take (nat n) L). \<forall>q \<in> set (drop (nat n) L). growth_order p q"
    using s by (rule take_drop_sorted_wrt)
  have "mset (take (nat n) L) + mset (drop (nat n) L) = mset (take (nat n) L @ drop (nat n) L)"
    by (simp only: mset_append)
  then have "mset df = mset (take (nat n) L) + mset (drop (nat n) L)"
    using m by simp
  with o len show ?thesis
    unfolding n by (intro exI [of _ "drop (nat n) L"]) (simp add: min_def)
qed

text \<open>
  C10. The rows plotted by \<^verbatim>\<open>population_widget\<close> for a region selection and a
  top-N value are rows of the table whose region name is in the selection; there are
  min(N, number of matching rows) of them; and the matching rows split into the plotted
  ones and the rest such that every plotted growth value is greater than or equal to
  every growth value in the rest (a row whose growth is NaN is plotted only when every
  row in the rest is NaN as well).
\<close>

theorem top_n_states_by_growth:
  "(\<forall>p \<in> set (population_widget df_states regions top_n).
      p \<in> set df_states \<and> (\<exists>name. REGION_NAME p = Some name \<and> name \<in> set regions)) \<and>
   length (population_widget df_states regions top_n)
     = min (nat top_n)
         (length (filter (\<lambda>r. \<exists>name. REGION_NAME r = Some name \<and> name \<in> set regions) df_states)) \<and>
   (\<exists>rest.
      mset (filter (\<lambda>r. \<exists>name. REGION_NAME r = Some name \<and> name \<in> set regions) df_states)
        = mset (population_widget df_states regions top_n) + mset rest \<and>
      (\<forall>p \<in> set (population_widget df_states regions top_n). \<forall>q \<in> set rest.
         (\<forall>x y. change_2010_2019 p = Some x \<and> change_2010_2019 q = Some y \<longrightarrow> y \<le> x) \<and>
         (change_2010_2019 p = None \<longrightarrow> change_2010_2019 q = None)))"
proof -
  let ?P = "\<lambda>r. \<exists>name. REGION_NAME r = Some name \<and> name \<in> set regions"
  have P: "(\<lambda>r. case REGION_NAME r of None \<Rightarrow> False | Some name \<Rightarrow> name \<in> set regions) = ?P"
    by (auto split: option.splits)
  have w: "population_widget df_states regions top_n = nlargest top_n (filter ?P df_states)"
    by (simp add: population_widget_def filtered_states P)
  obtain rest where r: "mset (filter ?P df_states) = mset (nlargest top_n (filter ?P df_states)) + mset rest"
    "\<forall>p \<in> set (nlargest top_n (filter ?P df_states)). \<forall>q \<in> set rest. growth_order p q"
    "length (nlargest top_n (filter ?P df_states)) = min (nat top_n) (length (filter ?P df_states))"
    using nlargest_split [of "filter ?P df_states" top_n] by blast
  have "set_mset (mset (filter ?P df_states))
          = set_mset (mset (nlargest top_n (filter ?P df_states)) + mset rest)"
    by (simp only: r(1))
  then have sub: "set (nlargest top_n (filter ?P df_states)) \<subseteq> set (filter ?P df_states)"
    by auto
  show ?thesis
    unfolding w
  proof (intro conjI)
    show "\<forall>p\<in>set (nlargest top_n (filter ?P df_states)). p \<in> set df_states \<and> ?P p"
      using sub by auto
    show "length (nlargest top_n (filter ?P df_states)) = min (nat top_n) (length (filter ?P df_states))"
      by (rule r(3))
    show "\<exists>rest. mset (filter ?P df_states) = mset (nlargest top_n (filter ?P df_states)) + mset rest \<and>
      (\<forall>p \<in> set (nlargest top_n (filter ?P df_states)). \<forall>q \<in> set rest.
         (\<forall>x y. change_2010_2019 p = Some x \<and> change_2010_2019 q = Some y \<longrightarrow> y \<le> x) \<and>
         (change_2010_2019 p = None \<longrightarrow> change_2010_2019 q = None))"
      using r(1,2) unfolding growth_order_def by (intro exI [of _ rest]) blast
  qed
qed

theorem top_n_states_by_growth_witness:
  "map NAME (population_widget example_states [''South'', ''West''] 2) = [''Utah'', ''Texas''] \<and>
   map REGION_NAME (population_widget example_states [''South'', ''West''] 2)
     = [Some ''West'', Some ''South''] \<and>
   length (population_widget example_states [''South'', ''West''] 2)
     = min (nat 2)
         (length (filter (\<lambda>r. \<exists>name. REGION_NAME r = Some name \<and> name \<in> set [''South'', ''West''])
            example_states))"
proof -
  have "map NAME (population_widget example_states [''South'', ''West''] 2) = [''Utah'', ''Texas'']"
    and "map REGION_NAME (population_widget example_states [''South'', ''West''] 2)
     = [Some ''West'', Some ''South'']"
    by (simp_all add: population_widget_def filtered_states example_states_def nlargest_def
        descending_key_def)
  with top_n_states_by_growth [of example_states "[''South'', ''West'']" 2]
  show ?thesis by blast
qed

text \<open>
  C6 (as the code has it). When no row of the table has a region name in the selection,
  the filtered subset is empty, its mean is NaN, and \<^verbatim>\<open>avg_growth\<close> renders the
  text \<^verbatim>\<open>nan%\<close>, whatever the floating-point mean of a non-empty column is.
\<close>

theorem avg_growth_empty_is_nan:
  assumes "\<forall>r \<in> set df_states. \<forall>name. REGION_NAME r = Some name \<longrightarrow> name \<notin> set regions"
  shows "states_getitem_mask df_states (isin_region df_states regions) = [] \<and>
         avg_growth float_mean df_states regions = ''nan%''"
proof -
  have "states_getitem_mask df_states (isin_region df_states regions) = []"
    using assms by (auto simp add: filtered_states filter_empty_conv split: option.splits)
  then show ?thesis
    by (simp add: avg_growth_def series_mean_def format_1f_float_def)
qed

theorem avg_growth_empty_is_nan_witness:
  "states_getitem_mask example_states (isin_region example_states [''Northeast'']) = [] \<and>
   avg_growth exact_mean example_states [''Northeast''] = ''nan%''"
proof -
  have h: "\<forall>r \<in> set example_states. \<forall>name. REGION_NAME r = Some name \<longrightarrow> name \<notin> set [''Northeast'']"
    by (simp add: example_states_def)
  from avg_growth_empty_is_nan [OF h, of exact_mean] show ?thesis by simp
qed

text \<open>With every region unchecked the value box shows \<^verbatim>\<open>nan%\<close>; with one region
  checked it shows the mean with one decimal.\<close>

theorem avg_growth_no_region_counterexample:
  "states_getitem_mask example_states (isin_region example_states []) = [] \<and>
   avg_growth exact_mean example_states [] = ''nan%'' \<and>
   avg_growth exact_mean example_states [''South''] = ''14.5%''"
  by (simp add: avg_growth_def filtered_states example_states_def series_mean_def exact_mean_def
      format_1f_float_def round_half_even_def str_nat.simps Let_def)


section \<open>Properties of the store\<close>

lemma preserves_refl: "preserves h h"
  by (simp add: preserves_def)

lemma preserves_trans: "preserves h h1 \<Longrightarrow> preserves h1 h2 \<Longrightarrow> preserves h h2"
  by (auto simp add: preserves_def)

lemma alloc_preserves: "alloc df h = (a, h') \<Longrightarrow> preserves h h' \<and> a = nxt h \<and> nxt h' = Suc (nxt h)"
  by (auto simp add: alloc_def preserves_def)

lemma getitem_mask_st_preserves:
  "getitem_mask_st a m h = (b, h') \<Longrightarrow> preserves h h' \<and> b = nxt h \<and> nxt h' = Suc (nxt h)"
  unfolding getitem_mask_st_def by (rule alloc_preserves)

lemma copy_st_preserves:
  "copy_st a h = (b, h') \<Longrightarrow> preserves h h' \<and> b = nxt h \<and> nxt h' = Suc (nxt h)"
  unfolding copy_st_def by (rule alloc_preserves)

text \<open>Assigning a column changes the data frame at that address and no other.\<close>

lemma setitem_col_st_frame:
  "setitem_col_st a c vs h = (r, h') \<Longrightarrow> nxt h' = nxt h \<and> (\<forall>b. b \<noteq> a \<longrightarrow> objs h' b = objs h b)"
  by (auto simp add: setitem_col_st_def split: sum.splits)

lemma setitem_fresh_preserves:
  assumes "preserves h0 h" "nxt h0 \<le> a" "setitem_col_st a c vs h = (r, h')"
  shows "preserves h0 h'"
  using assms setitem_col_st_frame [OF assms(3)]
  by (auto simp add: preserves_def)

lemma get_population_data_st_preserves:
  "preserves h (snd (get_population_data_st g s h))"
proof -
  obtain a h1 where 1: "getitem_mask_st (male_ref g)
            (mask_and (eq_entities (objs h (male_ref g)) (entity s))
                      (eq_years (objs h (male_ref g)) (year s))) h = (a, h1)"
    by (cases "getitem_mask_st (male_ref g)
            (mask_and (eq_entities (objs h (male_ref g)) (entity s))
                      (eq_years (objs h (male_ref g)) (year s))) h")
  obtain b h2 where 2: "getitem_mask_st (female_ref g)
            (mask_and (eq_entities (objs h1 (female_ref g)) (entity s))
                      (eq_years (objs h1 (female_ref g)) (year s))) h1 = (b, h2)"
    by (cases "getitem_mask_st (female_ref g)
            (mask_and (eq_entities (objs h1 (female_ref g)) (entity s))
                      (eq_years (objs h1 (female_ref g)) (year s))) h1")
  have "get_population_data_st g s h = ((a, b), h2)"
    by (simp add: get_population_data_st_def 1 2)
  moreover have "preserves h h2"
    using getitem_mask_st_preserves [OF 1] getitem_mask_st_preserves [OF 2]
    by (blast intro: preserves_trans)
  ultimately show ?thesis by simp
qed

lemma get_median_data_st_preserves:
  assumes "get_median_data_st g s h = (r, h')"
  shows "preserves h h' \<and> (\<forall>a b. r = Inr (a, b) \<longrightarrow> nxt h \<le> a \<and> a < nxt h')"
proof -
  obtain a h1 where 1: "getitem_mask_st (median_ref g)
            (isin_entities (objs h (median_ref g)) median_regions) h = (a, h1)"
    by (cases "getitem_mask_st (median_ref g)
            (isin_entities (objs h (median_ref g)) median_regions) h")
  obtain f h2 where 2: "copy_st a h1 = (f, h2)" by (cases "copy_st a h1")
  note p1 = getitem_mask_st_preserves [OF 1]
  note p2 = copy_st_preserves [OF 2]
  have p02: "preserves h h2" using p1 p2 by (blast intro: preserves_trans)
  have f: "nxt h \<le> f" using p1 p2 by (simp add: preserves_def)
  show ?thesis
  proof (cases "getitem_col (objs h2 f) estimates_column")
    case (Inl e)
    then have "get_median_data_st g s h = (Inl e, h2)"
      by (simp add: get_median_data_st_def 1 2)
    with assms p02 show ?thesis by auto
  next
    case est: (Inr est)
    show ?thesis
    proof (cases "getitem_col (objs h2 f) medium_column")
      case (Inl e)
      then have "get_median_data_st g s h = (Inl e, h2)"
        by (simp add: get_median_data_st_def 1 2 est)
      with assms p02 show ?thesis by auto
    next
      case med: (Inr med)
      obtain u h3 where 3: "setitem_col_st f ''median_age_combined''
                (np_where (map notna est) est med) h2 = (u, h3)"
        by (cases "setitem_col_st f ''median_age_combined''
                (np_where (map notna est) est med) h2")
      have p03: "preserves h h3" by (rule setitem_fresh_preserves [OF p02 f 3])
      have n3: "nxt h3 = nxt h2" using setitem_col_st_frame [OF 3] by simp
      show ?thesis
      proof (cases u)
        case (Inl e)
        then have "get_median_data_st g s h = (Inl e, h3)"
          by (simp add: get_median_data_st_def 1 2 est med 3)
        with assms p03 show ?thesis by auto
      next
        case (Inr x)
        obtain y h4 where 4: "getitem_mask_st f
                    (eq_years (objs h3 f) (median_year s)) h3 = (y, h4)"
          by (cases "getitem_mask_st f (eq_years (objs h3 f) (median_year s)) h3")
        note p4 = getitem_mask_st_preserves [OF 4]
        have r: "get_median_data_st g s h = (Inr (y, median_year s > 2023), h4)"
          using Inr by (simp add: get_median_data_st_def 1 2 est med 3 4)
        have "preserves h h4" using p03 p4 by (blast intro: preserves_trans)
        moreover have "nxt h \<le> y \<and> y < nxt h4"
          using p4 p03 by (simp add: preserves_def)
        ultimately show ?thesis using assms r by auto
      qed
    qed
  qed
qed

lemma median_age_render_st_preserves:
  "preserves h (snd (median_age_render_st g s h))"
proof -
  obtain r h1 where 1: "get_median_data_st g s h = (r, h1)"
    by (cases "get_median_data_st g s h")
  note p = get_median_data_st_preserves [OF 1]
  show ?thesis
  proof (cases r)
    case (Inl e)
    then show ?thesis using p by (simp add: median_age_render_st_def 1)
  next
    case (Inr ab)
    obtain a b where ab: "ab = (a, b)" by (cases ab)
    have a: "nxt h \<le> a" using p Inr ab by simp
    show ?thesis
    proof (cases "df_empty (objs h1 a)")
      case True
      then show ?thesis using p Inr ab by (simp add: median_age_render_st_def 1)
    next
      case ne: False
      show ?thesis
      proof (cases "mapE (custom_text b) (rows (objs h1 a))")
        case (Inl e)
        then show ?thesis using p Inr ab ne by (simp add: median_age_render_st_def 1)
      next
        case t: (Inr texts)
        obtain u h2 where 2: "setitem_col_st a ''custom_text'' texts h1 = (u, h2)"
          by (cases "setitem_col_st a ''custom_text'' texts h1")
        have "preserves h h2" using p by (intro setitem_fresh_preserves [OF _ a 2]) simp
        moreover have "snd (median_age_render_st g s h) = h2"
          using Inr ab ne t 2 by (cases u) (simp_all add: median_age_render_st_def 1)
        ultimately show ?thesis by simp
      qed
    qed
  qed
qed

lemma run_preserves: "preserves h (run g step h)"
proof (cases step)
  case (Pair s r)
  show ?thesis
  proof (cases r)
    case GetPopulationData
    then show ?thesis using Pair by (simp add: get_population_data_st_preserves)
  next
    case GetMedianData
    then show ?thesis using Pair get_median_data_st_preserves [of g s h]
      by (cases "get_median_data_st g s h") simp
  next
    case (AgeDistributionPlot xticks)
    then show ?thesis using Pair get_population_data_st_preserves [of h g s]
      by (auto simp add: age_distribution_plot_st_def split: prod.splits)
  next
    case AgeDistributionRender
    then show ?thesis using Pair get_population_data_st_preserves [of h g s]
      by (auto simp add: age_distribution_render_st_def split: prod.splits)
  next
    case MedianAgePlot
    then show ?thesis using Pair get_median_data_st_preserves [of g s h]
      by (cases "get_median_data_st g s h")
         (auto simp add: median_age_plot_st_def split: sum.splits)
  next
    case MedianAgeRender
    then show ?thesis using Pair by (simp add: median_age_render_st_preserves)
  qed
qed

lemma run_all_preserves: "preserves h (run_all g steps h)"
proof (induction steps arbitrary: h)
  case Nil
  show ?case by (simp add: run_all_def preserves_refl)
next
  case (Cons step steps)
  have "preserves h (run g step h)" by (rule run_preserves)
  moreover have "preserves (run g step h) (run_all g steps (run g step h))" by (rule Cons.IH)
  ultimately show ?case
    unfolding run_all_def by (simp add: preserves_trans)
qed

subsection \<open>The store version computes the same values\<close>

lemma get_population_data_st_value:
  assumes "store_holds g h ds" and "get_population_data_st g s h = ((a, b), h')"
  shows "(objs h' a, objs h' b) = get_population_data ds s"
  using assms
  by (auto simp add: get_population_data_st_def get_population_data_def getitem_mask_st_def
      alloc_def store_holds_def Let_def)

lemma get_median_data_st_value:
  assumes "store_holds g h ds" and "get_median_data_st g s h = (r, h')"
  shows "map_sum id (\<lambda>(a, flag). (objs h' a, flag)) r = get_median_data ds s"
  using assms
  by (auto simp add: get_median_data_st_def get_median_data_def getitem_mask_st_def copy_st_def
      setitem_col_st_def alloc_def store_holds_def Let_def bindE_def
      split: sum.splits prod.splits)

lemma store_holds_preserved: "store_holds g h ds \<Longrightarrow> preserves h h' \<Longrightarrow> store_holds g h' ds"
  by (auto simp add: store_holds_def preserves_def)

lemma age_distribution_plot_st_value:
  "store_holds g h ds \<Longrightarrow> fst (age_distribution_plot_st g xticks s h) = age_distribution_plot ds xticks s"
  using get_population_data_st_value [of g h ds s]
  by (cases "get_population_data_st g s h")
     (auto simp add: age_distribution_plot_st_def age_distribution_plot_def store_holds_def)

lemma age_distribution_render_st_value:
  "store_holds g h ds \<Longrightarrow> fst (age_distribution_render_st g s h) = age_distribution_render ds s"
  using get_population_data_st_value [of g h ds s]
  by (cases "get_population_data_st g s h")
     (auto simp add: age_distribution_render_st_def age_distribution_render_def store_holds_def)

lemma median_age_plot_st_value:
  assumes "store_holds g h ds"
  shows "fst (median_age_plot_st g s h) = median_age_plot ds s"
proof -
  obtain r h1 where 1: "get_median_data_st g s h = (r, h1)" by (cases "get_median_data_st g s h")
  from get_median_data_st_value [OF assms 1, symmetric] show ?thesis
    by (cases r) (auto simp add: median_age_plot_st_def median_age_plot_def 1 bindE_def)
qed

lemma median_age_render_st_value:
  assumes "store_holds g h ds"
  shows "fst (median_age_render_st g s h) = median_age_render ds s"
proof -
  obtain r h1 where 1: "get_median_data_st g s h = (r, h1)" by (cases "get_median_data_st g s h")
  from get_median_data_st_value [OF assms 1, symmetric] show ?thesis
    by (cases r)
       (auto simp add: median_age_render_st_def median_age_render_def 1 bindE_def
          setitem_col_st_def split: sum.splits)
qed

text \<open>
  C9. Whatever reactive calculations and renders of the two age dashboards run, in
  whatever order and for whatever selections, the three loaded tables (and every other
  data frame that existed before) are afterwards what they were: the columns
  \<^verbatim>\<open>median_age_combined\<close> and \<^verbatim>\<open>custom_text\<close> are assigned to data frames
  created by the recomputation itself.
\<close>

theorem loaded_tables_never_mutated:
  assumes "male_ref g < nxt h" and "female_ref g < nxt h" and "median_ref g < nxt h"
  shows "objs (run_all g steps h) (male_ref g) = objs h (male_ref g) \<and>
         objs (run_all g steps h) (female_ref g) = objs h (female_ref g) \<and>
         objs (run_all g steps h) (median_ref g) = objs h (median_ref g) \<and>
         (\<forall>a < nxt h. objs (run_all g steps h) a = objs h a)"
  using run_all_preserves [of h g steps] assms by (simp add: preserves_def)

theorem loaded_tables_never_mutated_witness:
  "male_ref example_globals < nxt example_heap \<and>
   female_ref example_globals < nxt example_heap \<and>
   median_ref example_globals < nxt example_heap \<and>
   objs (run_all example_globals
           [(initial_session, GetPopulationData),
            (initial_session\<lparr>median_year := 2024\<rparr>, GetMedianData),
            (initial_session\<lparr>median_year := 2023\<rparr>, MedianAgeRender),
            (initial_session, AgeDistributionPlot [- 4, 0, 4])] example_heap) 2
     = example_median_df \<and>
   objs (run_all example_globals
           [(initial_session, GetPopulationData),
            (initial_session\<lparr>median_year := 2024\<rparr>, GetMedianData),
            (initial_session\<lparr>median_year := 2023\<rparr>, MedianAgeRender),
            (initial_session, AgeDistributionPlot [- 4, 0, 4])] example_heap) 0
     = example_male_df"
  using loaded_tables_never_mutated [of example_globals example_heap
           "[(initial_session, GetPopulationData),
            (initial_session\<lparr>median_year := 2024\<rparr>, GetMedianData),
            (initial_session\<lparr>median_year := 2023\<rparr>, MedianAgeRender),
            (initial_session, AgeDistributionPlot [- 4, 0, 4])]"]
  by (simp add: example_globals_def example_heap_def)

text \<open>In the example the two columns end up in the data frame at the new address 5.\<close>

lemma median_age_render_st_writes_fresh_object:
  "columns (objs (snd (median_age_render_st example_globals (initial_session\<lparr>median_year := 2023\<rparr>) example_heap)) 5)
   = [estimates_column, medium_column, ''median_age_combined'', ''custom_text'']"
  by (simp add: median_age_render_st_def get_median_data_st_def getitem_mask_st_def copy_st_def
      alloc_def setitem_col_st_def setitem_col_def example_globals_def example_heap_def
      example_median_df_def example_row_def isin_entities_def median_regions_def
      getitem_mask_def getitem_col_def np_where_def eq_years_def df_empty_def custom_text_def
      cell_def format_1f_float_def round_half_even_def str_nat.simps bindE_def
      estimates_column_def medium_column_def Let_def)

end
